theory Spec2Isabelle
  imports Main "HOL-Library.Word" "HOL-Library.AList"
begin

section \<open>ESP8266 gaming time clock: play-time accounting and persistence\<close>

text \<open>
  A shallow embedding of the accounting part of \<^verbatim>\<open>ESP8266_GamingTimeClock.ino\<close>:
  the ten play-time counters, the JSON data file on LittleFS
  (\<^verbatim>\<open>fs_create_data_file\<close>, \<^verbatim>\<open>fs_save_data_file\<close>, \<^verbatim>\<open>fs_load_data_file\<close>,
  \<^verbatim>\<open>fs_reset_data_file\<close>), the main-loop step \<^verbatim>\<open>time_handle\<close>, the receiver
  callbacks \<^verbatim>\<open>denon_powerChanged\<close> and \<^verbatim>\<open>denon_inputChanged\<close>, and the date
  string of the idle screen, \<^verbatim>\<open>clock_getDateString\<close>.

  The sketch keeps its state in global variables; the model passes them in a record.
  Serial logging and drawing on the display are not part of the model.
\<close>

subsection \<open>Machine types and configuration constants\<close>

type_synonym u8 = "8 word"
type_synonym u16 = "16 word"
type_synonym u32 = "32 word"
type_synonym i32 = "32 word"

definition CLOCK_ENDSESSION_HOUR :: u8 where
  "CLOCK_ENDSESSION_HOUR = 6"

definition CLOCK_STARTWEEK_DAY :: u8 where
  "CLOCK_STARTWEEK_DAY = 1"

definition TIME_PS5_TODAY :: string where "TIME_PS5_TODAY = ''ps_t''"
definition TIME_PS5_WEEK :: string where "TIME_PS5_WEEK = ''ps_w''"
definition TIME_PS5_MONTH :: string where "TIME_PS5_MONTH = ''ps_m''"
definition TIME_PS5_YEAR :: string where "TIME_PS5_YEAR = ''ps_y''"
definition TIME_PS5_SUM :: string where "TIME_PS5_SUM = ''ps_s''"
definition TIME_SWITCH_TODAY :: string where "TIME_SWITCH_TODAY = ''sw_t''"
definition TIME_SWITCH_WEEK :: string where "TIME_SWITCH_WEEK = ''sw_w''"
definition TIME_SWITCH_MONTH :: string where "TIME_SWITCH_MONTH = ''sw_m''"
definition TIME_SWITCH_YEAR :: string where "TIME_SWITCH_YEAR = ''sw_y''"
definition TIME_SWITCH_SUM :: string where "TIME_SWITCH_SUM = ''sw_s''"

text \<open>The screen state machine's states (\<^verbatim>\<open>#define SM_SCREEN_...\<close>).\<close>

definition SM_SCREEN_OFF :: u8 where "SM_SCREEN_OFF = 0"
definition SM_SCREEN_IDLE :: u8 where "SM_SCREEN_IDLE = 1"
definition SM_SCREEN_INFO :: u8 where "SM_SCREEN_INFO = 2"
definition SM_SCREEN_STATS_ALL :: u8 where "SM_SCREEN_STATS_ALL = 3"
definition SM_SCREEN_PLAY_PS5 :: u8 where "SM_SCREEN_PLAY_PS5 = 10"
definition SM_SCREEN_STATS_PS5 :: u8 where "SM_SCREEN_STATS_PS5 = 11"
definition SM_SCREEN_PLAY_SWITCH :: u8 where "SM_SCREEN_PLAY_SWITCH = 20"
definition SM_SCREEN_STATS_SWITCH :: u8 where "SM_SCREEN_STATS_SWITCH = 21"

subsection \<open>The data file\<close>

text \<open>
  The ArduinoJson library is not part of the sketch. A document is the ordered list of
  the members of a flat JSON object whose values are integers, the only values the
  sketch writes. The content of \<^verbatim>\<open>/data.json\<close> is kept up to parsing: either text
  that \<^verbatim>\<open>deserializeJson\<close> rejects (with any error, an empty file included), or the
  document it yields; \<^verbatim>\<open>{}\<close> is the document without members, and what
  \<^verbatim>\<open>serializeJson\<close> writes is read back as the document written. The byte capacity
  of the \<^verbatim>\<open>StaticJsonDocument\<close> is not modelled.
\<close>

type_synonym json_doc = "(string \<times> int) list"

datatype file_content = Unparseable string | Document json_doc

text \<open>\<^verbatim>\<open>data.containsKey(k)\<close>.\<close>

definition containsKey :: "json_doc \<Rightarrow> string \<Rightarrow> bool" where
  "containsKey d k = (map_of d k \<noteq> None)"

text \<open>
  \<^verbatim>\<open>(int32_t)data[k]\<close> assigned to a \<^verbatim>\<open>uint32_t\<close>: the library converts a
  number that fits \<^verbatim>\<open>int32_t\<close> and gives 0 for one that does not; the assignment
  to the unsigned counter keeps the bits.
\<close>

definition json_as_counter :: "int \<Rightarrow> u32" where
  "json_as_counter v = (if - (2 ^ 31) \<le> v \<and> v < 2 ^ 31 then word_of_int v else 0)"

text \<open>
  The outcome of the fallible flash operations of one call: opening the file for
  writing, printing \<^verbatim>\<open>{}\<close>, and writing the serialised document.
\<close>

record fs_io =
  open_w_ok :: bool
  print_ok :: bool
  serialize_ok :: bool

subsection \<open>Program state\<close>

record state =
  everyMinute_tick :: u32
  time_ps5_today_mins :: u32
  time_ps5_week_mins :: u32
  time_ps5_month_mins :: u32
  time_ps5_year_mins :: u32
  time_ps5_sum_mins :: u32
  time_switch_today_mins :: u32
  time_switch_week_mins :: u32
  time_switch_month_mins :: u32
  time_switch_year_mins :: u32
  time_switch_sum_mins :: u32
  t_hour :: u8
  t_minute :: u8
  t_day :: u8
  t_month :: u8
  t_weekday :: u8
  t_year :: u16
  sm_screen :: u8
  sm_screen_forceRefresh :: bool
  data_file :: "file_content option"
  avr_sent :: "(string \<times> string) list"

text \<open>
  \<open>data_file\<close> is the content of \<^verbatim>\<open>/data.json\<close>, \<open>None\<close> when the file does not
  exist; \<open>avr_sent\<close> lists the commands passed to \<^verbatim>\<open>DenonAvr.set\<close>, oldest first.
\<close>

text \<open>The ten counters, PS5 first, each input in the order today, week, month, year, sum.\<close>

definition counters :: "state \<Rightarrow> u32 list" where
  "counters s =
     [time_ps5_today_mins s, time_ps5_week_mins s, time_ps5_month_mins s,
      time_ps5_year_mins s, time_ps5_sum_mins s,
      time_switch_today_mins s, time_switch_week_mins s, time_switch_month_mins s,
      time_switch_year_mins s, time_switch_sum_mins s]"

definition ps5_counters :: "state \<Rightarrow> u32 list" where
  "ps5_counters s =
     [time_ps5_today_mins s, time_ps5_week_mins s, time_ps5_month_mins s,
      time_ps5_year_mins s, time_ps5_sum_mins s]"

definition switch_counters :: "state \<Rightarrow> u32 list" where
  "switch_counters s =
     [time_switch_today_mins s, time_switch_week_mins s, time_switch_month_mins s,
      time_switch_year_mins s, time_switch_sum_mins s]"

subsection \<open>Filesystem functions\<close>

text \<open>
  \<^verbatim>\<open>fs_create_data_file\<close>: opening with mode \<^verbatim>\<open>"w"\<close> creates or empties the file;
  when the print fails the file is left empty.
\<close>

definition fs_create_data_file :: "fs_io \<Rightarrow> state \<Rightarrow> bool \<times> state" where
  "fs_create_data_file io s =
     (if \<not> open_w_ok io then (False, s)
      else if print_ok io then (True, s\<lparr>data_file := Some (Document [])\<rparr>)
      else (False, s\<lparr>data_file := Some (Unparseable [])\<rparr>))"

text \<open>The ten assignments \<^verbatim>\<open>data[KEY] = counter\<close> of \<^verbatim>\<open>fs_save_data_file\<close>.\<close>

definition update_data :: "state \<Rightarrow> json_doc \<Rightarrow> json_doc" where
  "update_data s d =
     (let d = AList.update TIME_PS5_TODAY (uint (time_ps5_today_mins s)) d;
          d = AList.update TIME_PS5_WEEK (uint (time_ps5_week_mins s)) d;
          d = AList.update TIME_PS5_MONTH (uint (time_ps5_month_mins s)) d;
          d = AList.update TIME_PS5_YEAR (uint (time_ps5_year_mins s)) d;
          d = AList.update TIME_PS5_SUM (uint (time_ps5_sum_mins s)) d;
          d = AList.update TIME_SWITCH_TODAY (uint (time_switch_today_mins s)) d;
          d = AList.update TIME_SWITCH_WEEK (uint (time_switch_week_mins s)) d;
          d = AList.update TIME_SWITCH_MONTH (uint (time_switch_month_mins s)) d;
          d = AList.update TIME_SWITCH_YEAR (uint (time_switch_year_mins s)) d;
          d = AList.update TIME_SWITCH_SUM (uint (time_switch_sum_mins s)) d
      in d)"

text \<open>
  \<^verbatim>\<open>fs_save_data_file\<close> from the point where the file is open: read and parse, return
  on a parse error, otherwise set the ten members, truncate and write. A failed
  write leaves the truncated, empty file.
\<close>

definition save_opened :: "fs_io \<Rightarrow> file_content \<Rightarrow> state \<Rightarrow> state" where
  "save_opened io c s =
     (case c of
        Unparseable raw \<Rightarrow> s
      | Document d \<Rightarrow>
          if serialize_ok io then s\<lparr>data_file := Some (Document (update_data s d))\<rparr>
          else s\<lparr>data_file := Some (Unparseable [])\<rparr>)"

definition fs_save_data_file :: "fs_io \<Rightarrow> state \<Rightarrow> state" where
  "fs_save_data_file io s =
     (case data_file s of
        None \<Rightarrow>
          (case fs_create_data_file io s of
             (False, s1) \<Rightarrow> s1
           | (True, s1) \<Rightarrow>
               (case data_file s1 of
                  None \<Rightarrow> s1
                | Some c \<Rightarrow> save_opened io c s1))
      | Some c \<Rightarrow> save_opened io c s)"

text \<open>
  \<^verbatim>\<open>data[k]\<close> read as a number: the value of the member, 0 when there is none.
\<close>

definition member_value :: "json_doc \<Rightarrow> string \<Rightarrow> int" where
  "member_value d k = (case map_of d k of None \<Rightarrow> 0 | Some v \<Rightarrow> v)"

text \<open>One line \<^verbatim>\<open>if (data.containsKey(k)) counter = (int32_t)data[k];\<close>.\<close>

definition load_member ::
  "json_doc \<Rightarrow> string \<Rightarrow> ((u32 \<Rightarrow> u32) \<Rightarrow> state \<Rightarrow> state) \<Rightarrow> state \<Rightarrow> state" where
  "load_member d k upd s =
     (if containsKey d k then upd (\<lambda>_. json_as_counter (member_value d k)) s else s)"

definition load_opened :: "file_content \<Rightarrow> state \<Rightarrow> state" where
  "load_opened c s =
     (case c of
        Unparseable raw \<Rightarrow> s
      | Document d \<Rightarrow>
          (let s = load_member d TIME_PS5_TODAY time_ps5_today_mins_update s;
               s = load_member d TIME_PS5_WEEK time_ps5_week_mins_update s;
               s = load_member d TIME_PS5_MONTH time_ps5_month_mins_update s;
               s = load_member d TIME_PS5_YEAR time_ps5_year_mins_update s;
               s = load_member d TIME_PS5_SUM time_ps5_sum_mins_update s;
               s = load_member d TIME_SWITCH_TODAY time_switch_today_mins_update s;
               s = load_member d TIME_SWITCH_WEEK time_switch_week_mins_update s;
               s = load_member d TIME_SWITCH_MONTH time_switch_month_mins_update s;
               s = load_member d TIME_SWITCH_YEAR time_switch_year_mins_update s;
               s = load_member d TIME_SWITCH_SUM time_switch_sum_mins_update s
           in s))"

text \<open>
  \<^verbatim>\<open>fs_load_data_file\<close> returns its local \<^verbatim>\<open>duration\<close>, which is 0 on every path;
  the model returns it with the new state.
\<close>

definition fs_load_data_file :: "fs_io \<Rightarrow> state \<Rightarrow> i32 \<times> state" where
  "fs_load_data_file io s =
     (case data_file s of
        None \<Rightarrow>
          (case fs_create_data_file io s of
             (False, s1) \<Rightarrow> (0, s1)
           | (True, s1) \<Rightarrow>
               (case data_file s1 of
                  None \<Rightarrow> (0, s1)
                | Some c \<Rightarrow> (0, load_opened c s1)))
      | Some c \<Rightarrow> (0, load_opened c s))"

definition fs_reset_data_file :: "fs_io \<Rightarrow> state \<Rightarrow> state" where
  "fs_reset_data_file io s =
     fs_save_data_file io
       (s\<lparr>time_ps5_today_mins := 0, time_ps5_week_mins := 0, time_ps5_month_mins := 0,
          time_ps5_year_mins := 0, time_ps5_sum_mins := 0,
          time_switch_today_mins := 0, time_switch_week_mins := 0,
          time_switch_month_mins := 0, time_switch_year_mins := 0,
          time_switch_sum_mins := 0\<rparr>)"

subsection \<open>The main-loop step\<close>

text \<open>
  \<^verbatim>\<open>time_handle\<close> has two blocks that share the local flag \<^verbatim>\<open>doSave\<close>. The first,
  the minute tick, reads \<^verbatim>\<open>millis()\<close> twice: \<open>m1\<close> in the comparison and \<open>m2\<close> for
  the next deadline.
\<close>

definition minute_tick :: "u32 \<Rightarrow> u32 \<Rightarrow> state \<times> bool \<Rightarrow> state \<times> bool" where
  "minute_tick m1 m2 sd =
     (case sd of (s, doSave) \<Rightarrow>
        if everyMinute_tick s < m1 then
          (let s = s\<lparr>everyMinute_tick := m2 + 60000\<rparr> in
           if sm_screen s = SM_SCREEN_PLAY_PS5 then
             (s\<lparr>time_ps5_today_mins := time_ps5_today_mins s + 1,
                time_ps5_week_mins := time_ps5_week_mins s + 1,
                time_ps5_month_mins := time_ps5_month_mins s + 1,
                time_ps5_year_mins := time_ps5_year_mins s + 1,
                time_ps5_sum_mins := time_ps5_sum_mins s + 1\<rparr>, True)
           else if sm_screen s = SM_SCREEN_PLAY_SWITCH then
             (s\<lparr>time_switch_today_mins := time_switch_today_mins s + 1,
                time_switch_week_mins := time_switch_week_mins s + 1,
                time_switch_month_mins := time_switch_month_mins s + 1,
                time_switch_year_mins := time_switch_year_mins s + 1,
                time_switch_sum_mins := time_switch_sum_mins s + 1\<rparr>, True)
           else (s, doSave))
        else (s, doSave))"

text \<open>The second block: the session ends at \<^verbatim>\<open>CLOCK_ENDSESSION_HOUR\<close>.\<close>

definition day_rollover :: "state \<times> bool \<Rightarrow> state \<times> bool" where
  "day_rollover sd =
     (case sd of (s, doSave) \<Rightarrow>
        if t_hour s = CLOCK_ENDSESSION_HOUR \<and> t_minute s = 0 then
          (let s = s\<lparr>time_ps5_today_mins := 0, time_switch_today_mins := 0\<rparr>;
               s = (if t_weekday s = CLOCK_STARTWEEK_DAY
                    then s\<lparr>time_ps5_week_mins := 0, time_switch_week_mins := 0\<rparr>
                    else s);
               s = (if t_day s = 1
                    then (let s = s\<lparr>time_ps5_month_mins := 0, time_switch_month_mins := 0\<rparr>
                          in if t_month s = 0
                             then s\<lparr>time_ps5_year_mins := 0, time_switch_year_mins := 0\<rparr>
                             else s)
                    else s)
           in (s, True))
        else (s, doSave))"

definition time_handle :: "fs_io \<Rightarrow> u32 \<Rightarrow> u32 \<Rightarrow> state \<Rightarrow> state" where
  "time_handle io m1 m2 s =
     (case day_rollover (minute_tick m1 m2 (s, False)) of
        (s', doSave) \<Rightarrow> if doSave then fs_save_data_file io s' else s')"

text \<open>
  \<^verbatim>\<open>time_init\<close>, called last in \<^verbatim>\<open>setup\<close>; \<open>m\<close> is the reading of
  \<^verbatim>\<open>millis()\<close>. The one-second ticker of the display is not modelled.
\<close>

definition time_init :: "fs_io \<Rightarrow> u32 \<Rightarrow> state \<Rightarrow> state" where
  "time_init io m s = snd (fs_load_data_file io (s\<lparr>everyMinute_tick := m + 60000\<rparr>))"

text \<open>The globals as their initialisers leave them, with the data file as found on flash.\<close>

definition boot_state :: "file_content option \<Rightarrow> state" where
  "boot_state f =
     \<lparr>everyMinute_tick = 0,
      time_ps5_today_mins = 0, time_ps5_week_mins = 0, time_ps5_month_mins = 0,
      time_ps5_year_mins = 0, time_ps5_sum_mins = 0,
      time_switch_today_mins = 0, time_switch_week_mins = 0, time_switch_month_mins = 0,
      time_switch_year_mins = 0, time_switch_sum_mins = 0,
      t_hour = 0, t_minute = 0, t_day = 0, t_month = 0, t_weekday = 0, t_year = 0,
      sm_screen = SM_SCREEN_IDLE, sm_screen_forceRefresh = False,
      data_file = f, avr_sent = []\<rparr>"

subsection \<open>Receiver callbacks\<close>

text \<open>
  \<^verbatim>\<open>DenonCommands.h\<close> is not among the sources: the string constants the callbacks
  compare with and send are parameters of the model.
\<close>

record denon_commands =
  ON :: string
  OFF :: string
  BLURAY_DISC :: string
  GAME :: string
  INPUT_SOURCE :: string

definition AVR_INPUT_PS5 :: "denon_commands \<Rightarrow> string" where
  "AVR_INPUT_PS5 dc = BLURAY_DISC dc"

definition AVR_INPUT_SWITCH :: "denon_commands \<Rightarrow> string" where
  "AVR_INPUT_SWITCH dc = GAME dc"

text \<open>
  \<^verbatim>\<open>strncmp(a, b, n) == 0\<close> on strings given by their characters before the
  terminator: the first \<open>n\<close> characters agree, or both strings end before that and
  are equal.
\<close>

definition strncmp_eq :: "string \<Rightarrow> string \<Rightarrow> nat \<Rightarrow> bool" where
  "strncmp_eq a b n = (take n a = take n b)"

text \<open>
  The callbacks compare \<^verbatim>\<open>len-1\<close> characters, \<^verbatim>\<open>len\<close> being a 32-bit
  \<^verbatim>\<open>size_t\<close>: for \<^verbatim>\<open>len = 0\<close> the subtraction wraps.
\<close>

definition denon_powerChanged ::
  "denon_commands \<Rightarrow> fs_io \<Rightarrow> string \<Rightarrow> u32 \<Rightarrow> state \<Rightarrow> state" where
  "denon_powerChanged dc io response len s =
     (if strncmp_eq response (ON dc) (unat (len - 1)) then
        (let s = snd (fs_load_data_file io s)
         in s\<lparr>avr_sent := avr_sent s @ [(INPUT_SOURCE dc, ''?'')]\<rparr>)
      else if strncmp_eq response (OFF dc) (unat (len - 1)) then
        (let s = fs_save_data_file io s;
             s = (if sm_screen s = SM_SCREEN_PLAY_PS5
                  then s\<lparr>sm_screen := SM_SCREEN_STATS_PS5\<rparr>
                  else if sm_screen s = SM_SCREEN_PLAY_SWITCH
                  then s\<lparr>sm_screen := SM_SCREEN_STATS_SWITCH\<rparr>
                  else s\<lparr>sm_screen := SM_SCREEN_IDLE\<rparr>)
         in s\<lparr>sm_screen_forceRefresh := True\<rparr>)
      else s)"

definition denon_inputChanged ::
  "denon_commands \<Rightarrow> fs_io \<Rightarrow> string \<Rightarrow> u32 \<Rightarrow> state \<Rightarrow> state" where
  "denon_inputChanged dc io response len s =
     (let s = fs_save_data_file io s in
      if strncmp_eq response (AVR_INPUT_PS5 dc) (unat (len - 1)) then
        s\<lparr>sm_screen := SM_SCREEN_PLAY_PS5, sm_screen_forceRefresh := True\<rparr>
      else if strncmp_eq response (AVR_INPUT_SWITCH dc) (unat (len - 1)) then
        s\<lparr>sm_screen := SM_SCREEN_PLAY_SWITCH, sm_screen_forceRefresh := True\<rparr>
      else
        s\<lparr>sm_screen := SM_SCREEN_IDLE, sm_screen_forceRefresh := True\<rparr>)"

text \<open>\<^verbatim>\<open>denon_disconnected\<close> and \<^verbatim>\<open>denon_conError\<close> have the same effect.\<close>

definition denon_disconnected :: "state \<Rightarrow> state" where
  "denon_disconnected s = s\<lparr>sm_screen := SM_SCREEN_IDLE, sm_screen_forceRefresh := True\<rparr>"

text \<open>
  The assignments of \<^verbatim>\<open>ntp_handle\<close> when its ten-second ticker is due; the readings
  of the NTP client are inputs.
\<close>

definition ntp_handle :: "u8 \<Rightarrow> u8 \<Rightarrow> u8 \<Rightarrow> u8 \<Rightarrow> u16 \<Rightarrow> u8 \<Rightarrow> state \<Rightarrow> state" where
  "ntp_handle h mi d mo y wd s =
     s\<lparr>t_hour := h, t_minute := mi, t_day := d, t_month := mo, t_year := y,
       t_weekday := wd\<rparr>"

subsection \<open>The date on the idle screen\<close>

text \<open>
  \<^verbatim>\<open>String += number\<close> appends the number in decimal; \<^verbatim>\<open>clock_getDateString\<close>
  builds \<^verbatim>\<open>dd.mm.yyyy\<close> from \<^verbatim>\<open>t_day\<close>, \<^verbatim>\<open>t_month\<close> and \<^verbatim>\<open>t_year\<close> as they
  are, padding day and month with a zero below 10.
\<close>

fun decimal :: "nat \<Rightarrow> string" where
  "decimal n =
     (if n < 10 then [''0123456789'' ! n]
      else decimal (n div 10) @ [''0123456789'' ! (n mod 10)])"

definition clock_getDateString :: "state \<Rightarrow> string" where
  "clock_getDateString s =
     (let d_str = [];
          d_str = (if t_day s < 10 then d_str @ ''0'' else d_str);
          d_str = d_str @ decimal (unat (t_day s));
          d_str = d_str @ ''.'';
          d_str = (if t_month s < 10 then d_str @ ''0'' else d_str);
          d_str = d_str @ decimal (unat (t_month s));
          d_str = d_str @ ''.'';
          d_str = d_str @ decimal (unat (t_year s))
      in d_str)"

subsection \<open>Runs\<close>

text \<open>
  What the single-threaded loop and the callbacks do to the state, one event at a time.
  \<open>Reset_data\<close> is the touch option that calls \<^verbatim>\<open>fs_reset_data_file\<close>.
\<close>

datatype event =
    Time_handle fs_io u32 u32
  | Power_changed fs_io string u32
  | Input_changed fs_io string u32
  | Reset_data fs_io
  | Ntp_handle u8 u8 u8 u8 u16 u8
  | Disconnected

fun step :: "denon_commands \<Rightarrow> event \<Rightarrow> state \<Rightarrow> state" where
  "step dc (Time_handle io m1 m2) s = time_handle io m1 m2 s"
| "step dc (Power_changed io response len) s = denon_powerChanged dc io response len s"
| "step dc (Input_changed io response len) s = denon_inputChanged dc io response len s"
| "step dc (Reset_data io) s = fs_reset_data_file io s"
| "step dc (Ntp_handle h mi d mo y wd) s = ntp_handle h mi d mo y wd s"
| "step dc Disconnected s = denon_disconnected s"

fun run :: "denon_commands \<Rightarrow> event list \<Rightarrow> state \<Rightarrow> state" where
  "run dc [] s = s"
| "run dc (e # es) s = run dc es (step dc e s)"

text \<open>
  A sequence of passes through the minute-tick block, each with its two readings of
  \<^verbatim>\<open>millis()\<close>, and the passes in which the block fires.
\<close>

fun tick_seq :: "(u32 \<times> u32) list \<Rightarrow> state \<Rightarrow> state" where
  "tick_seq [] s = s"
| "tick_seq ((m1, m2) # ms) s = tick_seq ms (fst (minute_tick m1 m2 (s, False)))"

fun all_fire :: "(u32 \<times> u32) list \<Rightarrow> state \<Rightarrow> bool" where
  "all_fire [] s = True"
| "all_fire ((m1, m2) # ms) s =
     (everyMinute_tick s < m1 \<and> all_fire ms (fst (minute_tick m1 m2 (s, False))))"

subsection \<open>Concrete inputs\<close>

text \<open>Flash operations that all succeed.\<close>

definition io_ok :: fs_io where
  "io_ok = \<lparr>open_w_ok = True, print_ok = True, serialize_ok = True\<rparr>"

text \<open>An instance of the header's constants, for evaluating the callbacks.\<close>

definition example_commands :: denon_commands where
  "example_commands =
     \<lparr>ON = ''ON'', OFF = ''OFF'', BLURAY_DISC = ''BD'', GAME = ''GAME'',
      INPUT_SOURCE = ''SI''\<rparr>"

text \<open>States and inputs on which the theorems below are evaluated.\<close>

definition new_year_0600 :: state where
  "new_year_0600 =
     (boot_state None)
       \<lparr>time_ps5_today_mins := 10, time_ps5_week_mins := 20, time_ps5_month_mins := 30,
        time_ps5_year_mins := 40, time_ps5_sum_mins := 50,
        time_switch_today_mins := 11, time_switch_week_mins := 21,
        time_switch_month_mins := 31, time_switch_year_mins := 41,
        time_switch_sum_mins := 51,
        t_hour := 6, t_minute := 0, t_day := 1, t_month := 1, t_year := 2024,
        t_weekday := 1\<rparr>"

definition three_ticks :: "(u32 \<times> u32) list" where
  "three_ticks = [(1, 1), (60002, 60003), (120004, 120004)]"

definition playing_ps5 :: state where
  "playing_ps5 =
     (boot_state (Some (Document [])))
       \<lparr>time_ps5_today_mins := 10, time_ps5_week_mins := 20, time_ps5_month_mins := 30,
        time_ps5_year_mins := 40, time_ps5_sum_mins := 50,
        time_switch_today_mins := 11, time_switch_week_mins := 21,
        time_switch_month_mins := 31, time_switch_year_mins := 41,
        time_switch_sum_mins := 51,
        sm_screen := SM_SCREEN_PLAY_PS5\<rparr>"

text \<open>The record of the specification's scenario A, and file content that does not parse.\<close>

definition scenario_a_record :: json_doc where
  "scenario_a_record = [(TIME_PS5_TODAY, 5), (TIME_SWITCH_TODAY, 0), (TIME_PS5_WEEK, 60)]"

definition corrupt_file :: file_content where
  "corrupt_file = Unparseable ''not json''"

text \<open>A record with a member the sketch does not know and one it does.\<close>

definition old_record :: json_doc where
  "old_record = [(''old'', 7), (TIME_PS5_WEEK, 1)]"

text \<open>
  The text a callback receives: the value followed by one terminating character, both
  counted by \<^verbatim>\<open>len\<close>.
\<close>

definition notification :: "string \<Rightarrow> string" where
  "notification v = v @ [CHR 0x0D]"

text \<open>The PS5 play screen at 06:00, the next minute tick due at 60000 ms.\<close>

definition ps5_at_0600 :: state where
  "ps5_at_0600 = playing_ps5\<lparr>everyMinute_tick := 60000, t_hour := 6, t_minute := 0\<rparr>"

text \<open>A run of callbacks and loop passes.\<close>

definition corrupt_run :: "event list" where
  "corrupt_run =
     [Input_changed io_ok (notification ''BD'') 3, Time_handle io_ok 1 1,
      Ntp_handle 6 0 1 1 2024 1, Time_handle io_ok 60002 60002, Reset_data io_ok,
      Power_changed io_ok (notification ''OFF'') 4, Disconnected,
      Power_changed io_ok (notification ''ON'') 3]"

text \<open>The ten keys, in the order of \<open>counters\<close>.\<close>

definition TIME_KEYS :: "string list" where
  "TIME_KEYS =
     [TIME_PS5_TODAY, TIME_PS5_WEEK, TIME_PS5_MONTH, TIME_PS5_YEAR, TIME_PS5_SUM,
      TIME_SWITCH_TODAY, TIME_SWITCH_WEEK, TIME_SWITCH_MONTH, TIME_SWITCH_YEAR,
      TIME_SWITCH_SUM]"

text \<open>
  The data file exists, and when it parses, every counter whose key is missing from the
  record is 0 in memory.
\<close>

definition missing_keys_zero :: "state \<Rightarrow> bool" where
  "missing_keys_zero s =
     (case data_file s of
        None \<Rightarrow> False
      | Some (Unparseable raw) \<Rightarrow> True
      | Some (Document d) \<Rightarrow>
          list_all2 (\<lambda>k c. containsKey d k \<or> c = 0) TIME_KEYS (counters s))"

text \<open>Flash on which the data file cannot be opened for writing.\<close>

definition io_no_open :: fs_io where
  "io_no_open = \<lparr>open_w_ok = False, print_ok = True, serialize_ok = True\<rparr>"

text \<open>
  The PS5 input is selected, one minute is counted, the receiver is switched off and on
  again; only at power-on can the data file be opened for writing.
\<close>

definition failed_create_run :: "event list" where
  "failed_create_run =
     [Input_changed io_no_open (notification ''BD'') 3,
      Time_handle io_no_open 60001 60001,
      Power_changed io_no_open (notification ''OFF'') 4,
      Power_changed io_ok (notification ''ON'') 3]"

section \<open>Properties\<close>

lemmas key_defs =
  TIME_PS5_TODAY_def TIME_PS5_WEEK_def TIME_PS5_MONTH_def TIME_PS5_YEAR_def
  TIME_PS5_SUM_def TIME_SWITCH_TODAY_def TIME_SWITCH_WEEK_def TIME_SWITCH_MONTH_def
  TIME_SWITCH_YEAR_def TIME_SWITCH_SUM_def

lemmas screen_defs =
  SM_SCREEN_OFF_def SM_SCREEN_IDLE_def SM_SCREEN_INFO_def SM_SCREEN_STATS_ALL_def
  SM_SCREEN_PLAY_PS5_def SM_SCREEN_STATS_PS5_def SM_SCREEN_PLAY_SWITCH_def
  SM_SCREEN_STATS_SWITCH_def

lemmas counters_defs = counters_def ps5_counters_def switch_counters_def

subsection \<open>Day rollover and minute tick\<close>

lemma day_rollover_state:
  "fst (day_rollover (s, d)) =
     (if t_hour s = CLOCK_ENDSESSION_HOUR \<and> t_minute s = 0 then
        s\<lparr>time_ps5_today_mins := 0, time_switch_today_mins := 0,
          time_ps5_week_mins := (if t_weekday s = CLOCK_STARTWEEK_DAY then 0 else time_ps5_week_mins s),
          time_switch_week_mins := (if t_weekday s = CLOCK_STARTWEEK_DAY then 0 else time_switch_week_mins s),
          time_ps5_month_mins := (if t_day s = 1 then 0 else time_ps5_month_mins s),
          time_switch_month_mins := (if t_day s = 1 then 0 else time_switch_month_mins s),
          time_ps5_year_mins := (if t_day s = 1 \<and> t_month s = 0 then 0 else time_ps5_year_mins s),
          time_switch_year_mins := (if t_day s = 1 \<and> t_month s = 0 then 0 else time_switch_year_mins s)\<rparr>
      else s)"
  by (simp add: day_rollover_def Let_def)

lemma day_rollover_flag:
  "snd (day_rollover (s, d)) = (t_hour s = CLOCK_ENDSESSION_HOUR \<and> t_minute s = 0 \<or> d)"
  by (auto simp add: day_rollover_def Let_def)

text \<open>
  The second block of \<^verbatim>\<open>time_handle\<close> in general. When the clock reads the
  session-end hour (6) and minute 0, it sets both today counters to 0; both week counters
  if the weekday is \<^verbatim>\<open>CLOCK_STARTWEEK_DAY\<close>; both month counters if the day of the
  month is 1; both year counters if the day is 1 and \<^verbatim>\<open>t_month\<close> is 0; it leaves both
  sum counters and asks for a save.
\<close>

lemma day_rollover_resets:
  assumes "t_hour s = CLOCK_ENDSESSION_HOUR" and "t_minute s = 0"
  shows "counters (fst (day_rollover (s, doSave))) =
           [0,
            if t_weekday s = CLOCK_STARTWEEK_DAY then 0 else time_ps5_week_mins s,
            if t_day s = 1 then 0 else time_ps5_month_mins s,
            if t_day s = 1 \<and> t_month s = 0 then 0 else time_ps5_year_mins s,
            time_ps5_sum_mins s,
            0,
            if t_weekday s = CLOCK_STARTWEEK_DAY then 0 else time_switch_week_mins s,
            if t_day s = 1 then 0 else time_switch_month_mins s,
            if t_day s = 1 \<and> t_month s = 0 then 0 else time_switch_year_mins s,
            time_switch_sum_mins s]
         \<and> snd (day_rollover (s, doSave))"
  using assms by (simp add: day_rollover_state day_rollover_flag counters_def)

text \<open>
  Claim C1 fails on the first day of the year. The sketch shows \<^verbatim>\<open>t_month\<close> as the
  month of the date, so January is 1: with the clock at 06:00 on Monday 01.01.2024 the
  day-rollover block sets the today, week and month counters to 0 and keeps the year
  counters 40 and 41, because it resets them for \<^verbatim>\<open>t_month == 0\<close> only. The same
  holds for the whole of \<^verbatim>\<open>time_handle\<close>.
\<close>

theorem day_rollover_first_of_january:
  "clock_getDateString new_year_0600 = ''01.01.2024'' \<and>
   t_hour new_year_0600 = CLOCK_ENDSESSION_HOUR \<and> t_minute new_year_0600 = 0 \<and>
   t_day new_year_0600 = 1 \<and>
   counters new_year_0600 = [10, 20, 30, 40, 50, 11, 21, 31, 41, 51] \<and>
   counters (fst (day_rollover (new_year_0600, False))) =
     [0, 0, 0, 40, 50, 0, 0, 0, 41, 51] \<and>
   counters (time_handle io_ok 1 1 new_year_0600) = [0, 0, 0, 40, 50, 0, 0, 0, 41, 51]"
proof -
  have d: "clock_getDateString new_year_0600 = ''01.01.2024''"
    by (simp add: clock_getDateString_def new_year_0600_def boot_state_def Let_def)
  have h: "t_hour new_year_0600 = CLOCK_ENDSESSION_HOUR" "t_minute new_year_0600 = 0"
      "t_day new_year_0600 = 1"
    by (simp_all add: new_year_0600_def boot_state_def CLOCK_ENDSESSION_HOUR_def)
  have c: "counters new_year_0600 = [10, 20, 30, 40, 50, 11, 21, 31, 41, 51]"
    by (simp add: new_year_0600_def boot_state_def counters_def)
  have r: "counters (fst (day_rollover (new_year_0600, False))) =
      [0, 0, 0, 40, 50, 0, 0, 0, 41, 51]"
    by (simp add: day_rollover_state counters_def new_year_0600_def boot_state_def
        CLOCK_ENDSESSION_HOUR_def CLOCK_STARTWEEK_DAY_def)
  have t: "counters (time_handle io_ok 1 1 new_year_0600) = [0, 0, 0, 40, 50, 0, 0, 0, 41, 51]"
    by (simp add: time_handle_def minute_tick_def day_rollover_def fs_save_data_file_def
        fs_create_data_file_def save_opened_def counters_def new_year_0600_def boot_state_def
        io_ok_def screen_defs CLOCK_ENDSESSION_HOUR_def CLOCK_STARTWEEK_DAY_def Let_def)
  from d h c r t show ?thesis by (simp only: simp_thms)
qed

text \<open>
  Claim C7. Running the day-rollover block twice with the same clock gives the same
  state, the ten counters included, as running it once.
\<close>

theorem day_rollover_idem: "day_rollover (day_rollover sd) = day_rollover sd"
  by (cases sd) (simp add: day_rollover_def Let_def)

lemma minute_tick_state:
  "fst (minute_tick m1 m2 (s, d)) =
     (if everyMinute_tick s < m1 then
        (if sm_screen s = SM_SCREEN_PLAY_PS5 then
           s\<lparr>everyMinute_tick := m2 + 60000,
             time_ps5_today_mins := time_ps5_today_mins s + 1,
             time_ps5_week_mins := time_ps5_week_mins s + 1,
             time_ps5_month_mins := time_ps5_month_mins s + 1,
             time_ps5_year_mins := time_ps5_year_mins s + 1,
             time_ps5_sum_mins := time_ps5_sum_mins s + 1\<rparr>
         else if sm_screen s = SM_SCREEN_PLAY_SWITCH then
           s\<lparr>everyMinute_tick := m2 + 60000,
             time_switch_today_mins := time_switch_today_mins s + 1,
             time_switch_week_mins := time_switch_week_mins s + 1,
             time_switch_month_mins := time_switch_month_mins s + 1,
             time_switch_year_mins := time_switch_year_mins s + 1,
             time_switch_sum_mins := time_switch_sum_mins s + 1\<rparr>
         else s\<lparr>everyMinute_tick := m2 + 60000\<rparr>)
      else s)"
  by (simp add: minute_tick_def Let_def)

lemma minute_tick_screen: "sm_screen (fst (minute_tick m1 m2 (s, d))) = sm_screen s"
  by (simp add: minute_tick_state)

lemma tick_seq_screen: "sm_screen (tick_seq ms s) = sm_screen s"
  by (induction ms s rule: tick_seq.induct) (simp_all add: minute_tick_screen)

lemma tick_seq_ps5:
  "all_fire ms s \<Longrightarrow> sm_screen s = SM_SCREEN_PLAY_PS5 \<Longrightarrow>
     ps5_counters (tick_seq ms s) = map (\<lambda>c. c + of_nat (length ms)) (ps5_counters s) \<and>
     switch_counters (tick_seq ms s) = switch_counters s"
proof (induction ms s rule: tick_seq.induct)
  case (1 s)
  then show ?case by (simp add: ps5_counters_def)
next
  case (2 m1 m2 ms s)
  let ?s1 = "fst (minute_tick m1 m2 (s, False))"
  from 2 have fire: "everyMinute_tick s < m1" and rest: "all_fire ms ?s1" by simp_all
  have scr: "sm_screen ?s1 = SM_SCREEN_PLAY_PS5"
    using "2.prems"(2) by (simp add: minute_tick_screen)
  have one: "ps5_counters ?s1 = map (\<lambda>c. c + 1) (ps5_counters s)"
      "switch_counters ?s1 = switch_counters s"
    using fire "2.prems"(2) by (simp_all add: minute_tick_state counters_defs)
  from "2.IH" [OF rest scr] one show ?case
    by (simp add: ps5_counters_def add.assoc add.commute)
qed








subsection \<open>Saving and loading\<close>

lemma update_data_file_irrelevant: "update_data (s\<lparr>data_file := f\<rparr>) d = update_data s d"
  by (simp add: update_data_def)

lemma fs_save_data_file_file:
  "data_file (fs_save_data_file io s) =
     (case data_file s of
        None \<Rightarrow>
          if open_w_ok io then
            if print_ok io then
              if serialize_ok io then Some (Document (update_data s [])) else Some (Unparseable [])
            else Some (Unparseable [])
          else None
      | Some (Unparseable raw) \<Rightarrow> Some (Unparseable raw)
      | Some (Document d) \<Rightarrow>
          if serialize_ok io then Some (Document (update_data s d)) else Some (Unparseable []))"
  by (simp add: fs_save_data_file_def fs_create_data_file_def save_opened_def
      update_data_file_irrelevant split: option.split file_content.split)

lemma fs_save_data_file_frame:
  "fs_save_data_file io s = s\<lparr>data_file := data_file (fs_save_data_file io s)\<rparr>"
  by (simp add: fs_save_data_file_def fs_create_data_file_def save_opened_def
      split: option.split file_content.split)

lemma fs_save_data_file_counters: "counters (fs_save_data_file io s) = counters s"
  by (subst fs_save_data_file_frame) (simp add: counters_def)

lemma fs_save_data_file_unparseable:
  "data_file s = Some (Unparseable raw) \<Longrightarrow> fs_save_data_file io s = s"
  by (simp add: fs_save_data_file_def save_opened_def)

lemma map_of_update_data:
  "map_of (update_data s d) =
     (map_of d)
       (TIME_PS5_TODAY \<mapsto> uint (time_ps5_today_mins s),
        TIME_PS5_WEEK \<mapsto> uint (time_ps5_week_mins s),
        TIME_PS5_MONTH \<mapsto> uint (time_ps5_month_mins s),
        TIME_PS5_YEAR \<mapsto> uint (time_ps5_year_mins s),
        TIME_PS5_SUM \<mapsto> uint (time_ps5_sum_mins s),
        TIME_SWITCH_TODAY \<mapsto> uint (time_switch_today_mins s),
        TIME_SWITCH_WEEK \<mapsto> uint (time_switch_week_mins s),
        TIME_SWITCH_MONTH \<mapsto> uint (time_switch_month_mins s),
        TIME_SWITCH_YEAR \<mapsto> uint (time_switch_year_mins s),
        TIME_SWITCH_SUM \<mapsto> uint (time_switch_sum_mins s))"
  by (simp add: update_data_def Let_def update_conv')

lemma update_data_Nil:
  "update_data s [] =
     [(TIME_PS5_TODAY, uint (time_ps5_today_mins s)),
      (TIME_PS5_WEEK, uint (time_ps5_week_mins s)),
      (TIME_PS5_MONTH, uint (time_ps5_month_mins s)),
      (TIME_PS5_YEAR, uint (time_ps5_year_mins s)),
      (TIME_PS5_SUM, uint (time_ps5_sum_mins s)),
      (TIME_SWITCH_TODAY, uint (time_switch_today_mins s)),
      (TIME_SWITCH_WEEK, uint (time_switch_week_mins s)),
      (TIME_SWITCH_MONTH, uint (time_switch_month_mins s)),
      (TIME_SWITCH_YEAR, uint (time_switch_year_mins s)),
      (TIME_SWITCH_SUM, uint (time_switch_sum_mins s))]"
  by (simp add: update_data_def Let_def key_defs)


lemma load_member_fields:
  "load_member d k time_ps5_today_mins_update s =
     s\<lparr>time_ps5_today_mins :=
         (case map_of d k of None \<Rightarrow> time_ps5_today_mins s | Some v \<Rightarrow> json_as_counter v)\<rparr>"
  "load_member d k time_ps5_week_mins_update s =
     s\<lparr>time_ps5_week_mins :=
         (case map_of d k of None \<Rightarrow> time_ps5_week_mins s | Some v \<Rightarrow> json_as_counter v)\<rparr>"
  "load_member d k time_ps5_month_mins_update s =
     s\<lparr>time_ps5_month_mins :=
         (case map_of d k of None \<Rightarrow> time_ps5_month_mins s | Some v \<Rightarrow> json_as_counter v)\<rparr>"
  "load_member d k time_ps5_year_mins_update s =
     s\<lparr>time_ps5_year_mins :=
         (case map_of d k of None \<Rightarrow> time_ps5_year_mins s | Some v \<Rightarrow> json_as_counter v)\<rparr>"
  "load_member d k time_ps5_sum_mins_update s =
     s\<lparr>time_ps5_sum_mins :=
         (case map_of d k of None \<Rightarrow> time_ps5_sum_mins s | Some v \<Rightarrow> json_as_counter v)\<rparr>"
  "load_member d k time_switch_today_mins_update s =
     s\<lparr>time_switch_today_mins :=
         (case map_of d k of None \<Rightarrow> time_switch_today_mins s | Some v \<Rightarrow> json_as_counter v)\<rparr>"
  "load_member d k time_switch_week_mins_update s =
     s\<lparr>time_switch_week_mins :=
         (case map_of d k of None \<Rightarrow> time_switch_week_mins s | Some v \<Rightarrow> json_as_counter v)\<rparr>"
  "load_member d k time_switch_month_mins_update s =
     s\<lparr>time_switch_month_mins :=
         (case map_of d k of None \<Rightarrow> time_switch_month_mins s | Some v \<Rightarrow> json_as_counter v)\<rparr>"
  "load_member d k time_switch_year_mins_update s =
     s\<lparr>time_switch_year_mins :=
         (case map_of d k of None \<Rightarrow> time_switch_year_mins s | Some v \<Rightarrow> json_as_counter v)\<rparr>"
  "load_member d k time_switch_sum_mins_update s =
     s\<lparr>time_switch_sum_mins :=
         (case map_of d k of None \<Rightarrow> time_switch_sum_mins s | Some v \<Rightarrow> json_as_counter v)\<rparr>"
  by (simp_all add: load_member_def containsKey_def member_value_def split: option.split)

lemma load_opened_counters:
  "counters (load_opened (Document d) s) =
     [case map_of d TIME_PS5_TODAY of None \<Rightarrow> time_ps5_today_mins s | Some v \<Rightarrow> json_as_counter v,
      case map_of d TIME_PS5_WEEK of None \<Rightarrow> time_ps5_week_mins s | Some v \<Rightarrow> json_as_counter v,
      case map_of d TIME_PS5_MONTH of None \<Rightarrow> time_ps5_month_mins s | Some v \<Rightarrow> json_as_counter v,
      case map_of d TIME_PS5_YEAR of None \<Rightarrow> time_ps5_year_mins s | Some v \<Rightarrow> json_as_counter v,
      case map_of d TIME_PS5_SUM of None \<Rightarrow> time_ps5_sum_mins s | Some v \<Rightarrow> json_as_counter v,
      case map_of d TIME_SWITCH_TODAY of None \<Rightarrow> time_switch_today_mins s | Some v \<Rightarrow> json_as_counter v,
      case map_of d TIME_SWITCH_WEEK of None \<Rightarrow> time_switch_week_mins s | Some v \<Rightarrow> json_as_counter v,
      case map_of d TIME_SWITCH_MONTH of None \<Rightarrow> time_switch_month_mins s | Some v \<Rightarrow> json_as_counter v,
      case map_of d TIME_SWITCH_YEAR of None \<Rightarrow> time_switch_year_mins s | Some v \<Rightarrow> json_as_counter v,
      case map_of d TIME_SWITCH_SUM of None \<Rightarrow> time_switch_sum_mins s | Some v \<Rightarrow> json_as_counter v]"
  by (simp add: load_opened_def load_member_fields counters_def Let_def cong: option.case_cong)

lemma load_opened_frame:
  "load_opened c s =
     s\<lparr>time_ps5_today_mins := time_ps5_today_mins (load_opened c s),
       time_ps5_week_mins := time_ps5_week_mins (load_opened c s),
       time_ps5_month_mins := time_ps5_month_mins (load_opened c s),
       time_ps5_year_mins := time_ps5_year_mins (load_opened c s),
       time_ps5_sum_mins := time_ps5_sum_mins (load_opened c s),
       time_switch_today_mins := time_switch_today_mins (load_opened c s),
       time_switch_week_mins := time_switch_week_mins (load_opened c s),
       time_switch_month_mins := time_switch_month_mins (load_opened c s),
       time_switch_year_mins := time_switch_year_mins (load_opened c s),
       time_switch_sum_mins := time_switch_sum_mins (load_opened c s)\<rparr>"
  by (cases c) (simp_all add: load_opened_def load_member_fields Let_def)

lemma load_opened_other:
  "data_file (load_opened c s) = data_file s"
  "sm_screen (load_opened c s) = sm_screen s"
  "sm_screen_forceRefresh (load_opened c s) = sm_screen_forceRefresh s"
  "avr_sent (load_opened c s) = avr_sent s"
  by (subst load_opened_frame, simp)+

lemma fs_load_data_file_result: "fst (fs_load_data_file io s) = 0"
  by (simp add: fs_load_data_file_def fs_create_data_file_def split: option.split)

lemma fs_load_data_file_file:
  "data_file (snd (fs_load_data_file io s)) =
     (case data_file s of
        None \<Rightarrow>
          if open_w_ok io then
            if print_ok io then Some (Document []) else Some (Unparseable [])
          else None
      | Some c \<Rightarrow> Some c)"
  by (simp add: fs_load_data_file_def fs_create_data_file_def load_opened_other
      split: option.split)

lemma load_opened_Nil: "load_opened (Document []) s = s"
  by (simp add: load_opened_def load_member_fields Let_def)

lemma fs_load_data_file_None:
  "data_file s = None \<Longrightarrow>
     snd (fs_load_data_file io s) = s\<lparr>data_file := data_file (snd (fs_load_data_file io s))\<rparr>"
  by (simp add: fs_load_data_file_def fs_create_data_file_def load_opened_Nil)

lemma fs_load_data_file_unparseable:
  "data_file s = Some (Unparseable raw) \<Longrightarrow> snd (fs_load_data_file io s) = s"
  by (simp add: fs_load_data_file_def load_opened_def)

lemma fs_load_data_file_document:
  "data_file s = Some (Document d) \<Longrightarrow>
     snd (fs_load_data_file io s) = load_opened (Document d) s"
  by (simp add: fs_load_data_file_def)


lemma fs_load_data_file_counters_None:
  "data_file s = None \<Longrightarrow> counters (snd (fs_load_data_file io s)) = counters s"
  by (subst fs_load_data_file_None) (simp_all add: counters_def)

lemma json_as_counter_value: "0 \<le> v \<Longrightarrow> v < 2 ^ 31 \<Longrightarrow> uint (json_as_counter v) = v"
  by (simp add: json_as_counter_def uint_word_of_int take_bit_int_eq_self)

text \<open>
  Claim C3, as the code has it. When the data file is missing, \<^verbatim>\<open>fs_load_data_file\<close>
  returns 0, leaves the ten counters as they are in memory, and the file afterwards is
  the empty record \<^verbatim>\<open>{}\<close> if it could be created and written, an empty file if
  only the write failed, and still missing if it could not be opened. When the file
  exists and does not parse, the call returns 0 and changes nothing: no counter and not
  the file. At startup, where \<^verbatim>\<open>time_init\<close> loads into the zero-initialised globals,
  all ten counters are 0 in both cases.
\<close>

theorem fs_load_data_file_missing_or_corrupt:
  "(data_file s = None \<longrightarrow>
      fst (fs_load_data_file io s) = 0 \<and>
      counters (snd (fs_load_data_file io s)) = counters s \<and>
      data_file (snd (fs_load_data_file io s)) =
        (if open_w_ok io then
           if print_ok io then Some (Document []) else Some (Unparseable [])
         else None)) \<and>
   (data_file s = Some (Unparseable raw) \<longrightarrow> fs_load_data_file io s = (0, s)) \<and>
   (f = None \<or> f = Some (Unparseable raw) \<longrightarrow>
      counters (time_init io m (boot_state f)) = [0, 0, 0, 0, 0, 0, 0, 0, 0, 0])"
proof (intro conjI impI)
  assume n: "data_file s = None"
  show "fst (fs_load_data_file io s) = 0" by (rule fs_load_data_file_result)
  from n show "counters (snd (fs_load_data_file io s)) = counters s"
    by (rule fs_load_data_file_counters_None)
  from n show "data_file (snd (fs_load_data_file io s)) =
      (if open_w_ok io then
         if print_ok io then Some (Document []) else Some (Unparseable [])
       else None)"
    by (simp add: fs_load_data_file_file)
next
  assume u: "data_file s = Some (Unparseable raw)"
  then show "fs_load_data_file io s = (0, s)"
    by (simp add: fs_load_data_file_def load_opened_def)
next
  let ?b = "(boot_state f)\<lparr>everyMinute_tick := m + 60000\<rparr>"
  assume "f = None \<or> f = Some (Unparseable raw)"
  then have "counters (snd (fs_load_data_file io ?b)) = counters ?b"
  proof
    assume "f = None"
    then have "data_file ?b = None" by (simp add: boot_state_def)
    then show ?thesis by (rule fs_load_data_file_counters_None)
  next
    assume "f = Some (Unparseable raw)"
    then have "data_file ?b = Some (Unparseable raw)" by (simp add: boot_state_def)
    then show ?thesis by (simp add: fs_load_data_file_unparseable)
  qed
  then show "counters (time_init io m (boot_state f)) = [0, 0, 0, 0, 0, 0, 0, 0, 0, 0]"
    by (simp add: time_init_def counters_def boot_state_def)
qed

text \<open>
  The theorem at a state with counters 10, 20, ... and no file, at the same state with a
  file that does not parse, and at startup.
\<close>

theorem fs_load_data_file_missing_or_corrupt_witness:
  "data_file (playing_ps5\<lparr>data_file := None\<rparr>) = None \<and>
   fst (fs_load_data_file io_ok (playing_ps5\<lparr>data_file := None\<rparr>)) = 0 \<and>
   counters (snd (fs_load_data_file io_ok (playing_ps5\<lparr>data_file := None\<rparr>))) =
     [10, 20, 30, 40, 50, 11, 21, 31, 41, 51] \<and>
   data_file (snd (fs_load_data_file io_ok (playing_ps5\<lparr>data_file := None\<rparr>))) =
     Some (Document []) \<and>
   data_file (playing_ps5\<lparr>data_file := Some corrupt_file\<rparr>) = Some (Unparseable ''not json'') \<and>
   fs_load_data_file io_ok (playing_ps5\<lparr>data_file := Some corrupt_file\<rparr>) =
     (0, playing_ps5\<lparr>data_file := Some corrupt_file\<rparr>) \<and>
   counters (time_init io_ok 1000 (boot_state None)) = [0, 0, 0, 0, 0, 0, 0, 0, 0, 0]"
proof -
  have a: "data_file (playing_ps5\<lparr>data_file := None\<rparr>) = None" by simp
  have b: "data_file (playing_ps5\<lparr>data_file := Some corrupt_file\<rparr>) = Some (Unparseable ''not json'')"
    by (simp add: corrupt_file_def)
  from fs_load_data_file_missing_or_corrupt
         [of "playing_ps5\<lparr>data_file := None\<rparr>" io_ok "''not json''" None 1000]
       fs_load_data_file_missing_or_corrupt
         [of "playing_ps5\<lparr>data_file := Some corrupt_file\<rparr>" io_ok "''not json''" None 1000]
       a b
  show ?thesis
    by (simp add: io_ok_def playing_ps5_def boot_state_def counters_def)
qed

text \<open>
  Claim C3 as stated fails: at startup a file that does not parse is still there,
  unparsed, after the load, not replaced by an empty record; and a load that finds no
  file while the counters in memory are 10, 20, ... leaves them so, not zero.
\<close>

theorem fs_load_data_file_corrupt_counterexample:
  "data_file (snd (fs_load_data_file io_ok (boot_state (Some corrupt_file)))) =
     Some (Unparseable ''not json'') \<and>
   data_file (snd (fs_load_data_file io_ok (boot_state (Some corrupt_file)))) \<noteq>
     Some (Document []) \<and>
   counters (snd (fs_load_data_file io_ok (playing_ps5\<lparr>data_file := None\<rparr>))) =
     [10, 20, 30, 40, 50, 11, 21, 31, 41, 51] \<and>
   counters (snd (fs_load_data_file io_ok (playing_ps5\<lparr>data_file := None\<rparr>))) \<noteq>
     [0, 0, 0, 0, 0, 0, 0, 0, 0, 0]"
proof -
  have c: "counters (snd (fs_load_data_file io_ok (playing_ps5\<lparr>data_file := None\<rparr>))) =
      counters (playing_ps5\<lparr>data_file := None\<rparr>)"
    by (rule fs_load_data_file_counters_None) simp
  have v: "counters (playing_ps5\<lparr>data_file := None\<rparr>) = [10, 20, 30, 40, 50, 11, 21, 31, 41, 51]"
    by (simp add: playing_ps5_def boot_state_def counters_def)
  have f: "data_file (snd (fs_load_data_file io_ok (boot_state (Some corrupt_file)))) =
      Some (Unparseable ''not json'')"
    by (simp add: fs_load_data_file_file corrupt_file_def boot_state_def)
  show ?thesis
    unfolding c v f by simp
qed


text \<open>
  Claim C4, as the code has it. The file after \<^verbatim>\<open>fs_save_data_file\<close>: content that
  does not parse is left as it is; a document is replaced by itself with the ten members
  set to the ten counters, every other member kept; a missing file is created and then
  holds exactly the ten members; a failed write leaves an empty file. The members set are
  the ten keys with the current counter values, and the counters in memory do not change.
\<close>

theorem fs_save_data_file_effect:
  "data_file (fs_save_data_file io s) =
     (case data_file s of
        None \<Rightarrow>
          if open_w_ok io then
            if print_ok io then
              if serialize_ok io then Some (Document (update_data s [])) else Some (Unparseable [])
            else Some (Unparseable [])
          else None
      | Some (Unparseable raw) \<Rightarrow> Some (Unparseable raw)
      | Some (Document d) \<Rightarrow>
          if serialize_ok io then Some (Document (update_data s d)) else Some (Unparseable [])) \<and>
   map_of (update_data s d0) =
     (map_of d0)
       (TIME_PS5_TODAY \<mapsto> uint (time_ps5_today_mins s),
        TIME_PS5_WEEK \<mapsto> uint (time_ps5_week_mins s),
        TIME_PS5_MONTH \<mapsto> uint (time_ps5_month_mins s),
        TIME_PS5_YEAR \<mapsto> uint (time_ps5_year_mins s),
        TIME_PS5_SUM \<mapsto> uint (time_ps5_sum_mins s),
        TIME_SWITCH_TODAY \<mapsto> uint (time_switch_today_mins s),
        TIME_SWITCH_WEEK \<mapsto> uint (time_switch_week_mins s),
        TIME_SWITCH_MONTH \<mapsto> uint (time_switch_month_mins s),
        TIME_SWITCH_YEAR \<mapsto> uint (time_switch_year_mins s),
        TIME_SWITCH_SUM \<mapsto> uint (time_switch_sum_mins s)) \<and>
   update_data s [] =
     [(TIME_PS5_TODAY, uint (time_ps5_today_mins s)),
      (TIME_PS5_WEEK, uint (time_ps5_week_mins s)),
      (TIME_PS5_MONTH, uint (time_ps5_month_mins s)),
      (TIME_PS5_YEAR, uint (time_ps5_year_mins s)),
      (TIME_PS5_SUM, uint (time_ps5_sum_mins s)),
      (TIME_SWITCH_TODAY, uint (time_switch_today_mins s)),
      (TIME_SWITCH_WEEK, uint (time_switch_week_mins s)),
      (TIME_SWITCH_MONTH, uint (time_switch_month_mins s)),
      (TIME_SWITCH_YEAR, uint (time_switch_year_mins s)),
      (TIME_SWITCH_SUM, uint (time_switch_sum_mins s))] \<and>
   counters (fs_save_data_file io s) = counters s"
  using fs_save_data_file_file [of io s] map_of_update_data [of s d0] update_data_Nil [of s]
    fs_save_data_file_counters [of io s]
  by (simp only: simp_thms)

text \<open>
  Saving over a record with a foreign member and an old week value, and saving with no
  file.
\<close>

theorem fs_save_data_file_effect_witness:
  "data_file (fs_save_data_file io_ok (playing_ps5\<lparr>data_file := Some (Document old_record)\<rparr>)) =
     Some (Document
       [(''old'', 7), (''ps_w'', 20), (''ps_t'', 10), (''ps_m'', 30), (''ps_y'', 40),
        (''ps_s'', 50), (''sw_t'', 11), (''sw_w'', 21), (''sw_m'', 31), (''sw_y'', 41),
        (''sw_s'', 51)]) \<and>
   data_file (fs_save_data_file io_ok (playing_ps5\<lparr>data_file := None\<rparr>)) =
     Some (Document
       [(''ps_t'', 10), (''ps_w'', 20), (''ps_m'', 30), (''ps_y'', 40),
        (''ps_s'', 50), (''sw_t'', 11), (''sw_w'', 21), (''sw_m'', 31), (''sw_y'', 41),
        (''sw_s'', 51)])"
proof -
  have u: "update_data (playing_ps5\<lparr>data_file := Some (Document old_record)\<rparr>) old_record =
      [(''old'', 7), (''ps_w'', 20), (''ps_t'', 10), (''ps_m'', 30), (''ps_y'', 40),
       (''ps_s'', 50), (''sw_t'', 11), (''sw_w'', 21), (''sw_m'', 31), (''sw_y'', 41),
       (''sw_s'', 51)]"
    by (simp add: update_data_def old_record_def playing_ps5_def boot_state_def key_defs)
  from fs_save_data_file_effect
         [of io_ok "playing_ps5\<lparr>data_file := Some (Document old_record)\<rparr>" "[]"]
       fs_save_data_file_effect [of io_ok "playing_ps5\<lparr>data_file := None\<rparr>" "[]"] u
  show ?thesis
    by (simp add: io_ok_def playing_ps5_def boot_state_def key_defs)
qed

text \<open>
  Claim C4 as stated fails: over content that does not parse nothing is written, and
  the document written over a record with a foreign member differs from the one written
  over the empty record, so the result depends on the previous content.
\<close>

theorem fs_save_data_file_counterexample:
  "data_file (fs_save_data_file io_ok (playing_ps5\<lparr>data_file := Some corrupt_file\<rparr>)) =
     Some (Unparseable ''not json'') \<and>
   data_file (fs_save_data_file io_ok (playing_ps5\<lparr>data_file := Some (Document old_record)\<rparr>)) \<noteq>
   data_file (fs_save_data_file io_ok (playing_ps5\<lparr>data_file := Some (Document [])\<rparr>))"
proof -
  have a: "fs_save_data_file io_ok (playing_ps5\<lparr>data_file := Some corrupt_file\<rparr>) =
      playing_ps5\<lparr>data_file := Some corrupt_file\<rparr>"
    by (rule fs_save_data_file_unparseable [of _ "''not json''"]) (simp add: corrupt_file_def)
  have b: "data_file (fs_save_data_file io_ok (playing_ps5\<lparr>data_file := Some (Document old_record)\<rparr>)) =
      Some (Document (update_data playing_ps5 old_record))"
    by (simp add: fs_save_data_file_file io_ok_def update_data_file_irrelevant)
  have c: "data_file (fs_save_data_file io_ok (playing_ps5\<lparr>data_file := Some (Document [])\<rparr>)) =
      Some (Document (update_data playing_ps5 []))"
    by (simp add: fs_save_data_file_file io_ok_def update_data_file_irrelevant)
  have d: "update_data playing_ps5 old_record \<noteq> update_data playing_ps5 []"
    by (simp add: update_data_def old_record_def key_defs)
  show ?thesis
    unfolding a b c using d by (simp add: corrupt_file_def)
qed

subsection \<open>A file that does not parse\<close>

lemma minute_tick_flag:
  "snd (minute_tick m1 m2 (s, d)) =
     (d \<or> everyMinute_tick s < m1 \<and>
        (sm_screen s = SM_SCREEN_PLAY_PS5 \<or> sm_screen s = SM_SCREEN_PLAY_SWITCH))"
  by (auto simp add: minute_tick_def Let_def)

lemma time_handle_unfold:
  "time_handle io m1 m2 s =
     (if snd (day_rollover (minute_tick m1 m2 (s, False)))
      then fs_save_data_file io (fst (day_rollover (minute_tick m1 m2 (s, False))))
      else fst (day_rollover (minute_tick m1 m2 (s, False))))"
  by (simp add: time_handle_def split: prod.split)

lemma minute_tick_file: "data_file (fst (minute_tick m1 m2 (s, d))) = data_file s"
  by (simp add: minute_tick_state)

lemma day_rollover_file: "data_file (fst (day_rollover sd)) = data_file (fst sd)"
  by (cases sd) (simp add: day_rollover_state)

lemma time_handle_unparseable:
  assumes "data_file s = Some (Unparseable raw)"
  shows "data_file (time_handle io m1 m2 s) = Some (Unparseable raw)"
proof -
  let ?s2 = "fst (day_rollover (minute_tick m1 m2 (s, False)))"
  have f: "data_file ?s2 = Some (Unparseable raw)"
    using assms by (simp add: day_rollover_file minute_tick_file)
  then have "fs_save_data_file io ?s2 = ?s2" by (rule fs_save_data_file_unparseable)
  with f show ?thesis by (simp add: time_handle_unfold)
qed

lemma denon_powerChanged_unparseable:
  assumes "data_file s = Some (Unparseable raw)"
  shows "data_file (denon_powerChanged dc io response len s) = Some (Unparseable raw)"
  using assms
  by (simp add: denon_powerChanged_def Let_def fs_load_data_file_unparseable
      fs_save_data_file_unparseable)

lemma denon_inputChanged_unparseable:
  assumes "data_file s = Some (Unparseable raw)"
  shows "data_file (denon_inputChanged dc io response len s) = Some (Unparseable raw)"
  using assms
  by (simp add: denon_inputChanged_def Let_def fs_save_data_file_unparseable)

lemma fs_reset_data_file_unparseable:
  assumes "data_file s = Some (Unparseable raw)"
  shows "fs_reset_data_file io s =
     s\<lparr>time_ps5_today_mins := 0, time_ps5_week_mins := 0, time_ps5_month_mins := 0,
       time_ps5_year_mins := 0, time_ps5_sum_mins := 0,
       time_switch_today_mins := 0, time_switch_week_mins := 0,
       time_switch_month_mins := 0, time_switch_year_mins := 0,
       time_switch_sum_mins := 0\<rparr>"
  unfolding fs_reset_data_file_def
  by (rule fs_save_data_file_unparseable [of _ raw]) (simp add: assms)

lemma step_unparseable:
  assumes "data_file s = Some (Unparseable raw)"
  shows "data_file (step dc e s) = Some (Unparseable raw)"
proof (cases e)
  case (Time_handle io m1 m2)
  with assms show ?thesis by (simp add: time_handle_unparseable)
next
  case (Power_changed io response len)
  with assms show ?thesis by (simp add: denon_powerChanged_unparseable)
next
  case (Input_changed io response len)
  with assms show ?thesis by (simp add: denon_inputChanged_unparseable)
next
  case (Reset_data io)
  with assms show ?thesis by (simp add: fs_reset_data_file_unparseable)
next
  case (Ntp_handle h mi d mo y wd)
  with assms show ?thesis by (simp add: ntp_handle_def)
next
  case Disconnected
  with assms show ?thesis by (simp add: denon_disconnected_def)
qed

lemma run_unparseable:
  "data_file s = Some (Unparseable raw) \<Longrightarrow> data_file (run dc es s) = Some (Unparseable raw)"
  by (induction es arbitrary: s) (simp_all add: step_unparseable)

text \<open>
  Claim C10. When the data file exists and does not parse, \<^verbatim>\<open>fs_save_data_file\<close>
  changes nothing, neither the file nor the counters; \<^verbatim>\<open>fs_reset_data_file\<close> sets
  the ten counters to 0 in memory and leaves the file; and after any run of loop passes
  and callbacks the file still has the same content.
\<close>

theorem fs_save_data_file_corrupt_noop:
  assumes "data_file s = Some (Unparseable raw)"
  shows "fs_save_data_file io s = s \<and>
         fs_reset_data_file io s =
           s\<lparr>time_ps5_today_mins := 0, time_ps5_week_mins := 0, time_ps5_month_mins := 0,
             time_ps5_year_mins := 0, time_ps5_sum_mins := 0,
             time_switch_today_mins := 0, time_switch_week_mins := 0,
             time_switch_month_mins := 0, time_switch_year_mins := 0,
             time_switch_sum_mins := 0\<rparr> \<and>
         data_file (fs_reset_data_file io s) = Some (Unparseable raw) \<and>
         data_file (run dc es s) = Some (Unparseable raw)"
  using assms
  by (simp add: fs_save_data_file_unparseable fs_reset_data_file_unparseable run_unparseable)

text \<open>
  The theorem at a state with counters 10, 20, ... and a file that does not parse.
\<close>

theorem fs_save_data_file_corrupt_noop_witness:
  "data_file (playing_ps5\<lparr>data_file := Some corrupt_file\<rparr>) = Some (Unparseable ''not json'') \<and>
   fs_save_data_file io_ok (playing_ps5\<lparr>data_file := Some corrupt_file\<rparr>) =
     playing_ps5\<lparr>data_file := Some corrupt_file\<rparr> \<and>
   counters (fs_reset_data_file io_ok (playing_ps5\<lparr>data_file := Some corrupt_file\<rparr>)) =
     [0, 0, 0, 0, 0, 0, 0, 0, 0, 0] \<and>
   data_file (fs_reset_data_file io_ok (playing_ps5\<lparr>data_file := Some corrupt_file\<rparr>)) =
     Some (Unparseable ''not json'') \<and>
   data_file (run example_commands corrupt_run (playing_ps5\<lparr>data_file := Some corrupt_file\<rparr>)) =
     Some (Unparseable ''not json'')"
proof -
  have f: "data_file (playing_ps5\<lparr>data_file := Some corrupt_file\<rparr>) = Some (Unparseable ''not json'')"
    by (simp add: corrupt_file_def)
  from fs_save_data_file_corrupt_noop [OF f, of io_ok example_commands corrupt_run] f
  show ?thesis
    by (simp add: counters_def)
qed


subsection \<open>Polling at the session-end minute\<close>

lemma time_handle_frame:
  "time_handle io m1 m2 s =
     (fst (day_rollover (minute_tick m1 m2 (s, False))))
       \<lparr>data_file := data_file (time_handle io m1 m2 s)\<rparr>"
proof (cases "snd (day_rollover (minute_tick m1 m2 (s, False)))")
  case True
  then show ?thesis
    using fs_save_data_file_frame [of io "fst (day_rollover (minute_tick m1 m2 (s, False)))"]
    by (simp add: time_handle_unfold)
next
  case False
  then show ?thesis by (simp add: time_handle_unfold)
qed

lemma day_rollover_clock:
  "t_hour (fst (day_rollover sd)) = t_hour (fst sd)"
  "t_minute (fst (day_rollover sd)) = t_minute (fst sd)"
  "everyMinute_tick (fst (day_rollover sd)) = everyMinute_tick (fst sd)"
  by (cases sd, simp add: day_rollover_state)+

lemma minute_tick_clock:
  "t_hour (fst (minute_tick m1 m2 (s, d))) = t_hour s"
  "t_minute (fst (minute_tick m1 m2 (s, d))) = t_minute s"
  by (simp_all add: minute_tick_state)

lemma day_rollover_due:
  "t_hour (fst sd) = CLOCK_ENDSESSION_HOUR \<Longrightarrow> t_minute (fst sd) = 0 \<Longrightarrow>
     snd (day_rollover sd) \<and>
     time_ps5_today_mins (fst (day_rollover sd)) = 0 \<and>
     time_switch_today_mins (fst (day_rollover sd)) = 0"
  by (cases sd) (simp add: day_rollover_state day_rollover_flag)

lemma time_handle_fields:
  "counters (time_handle io m1 m2 s) =
     counters (fst (day_rollover (minute_tick m1 m2 (s, False))))"
  "time_ps5_today_mins (time_handle io m1 m2 s) =
     time_ps5_today_mins (fst (day_rollover (minute_tick m1 m2 (s, False))))"
  "time_switch_today_mins (time_handle io m1 m2 s) =
     time_switch_today_mins (fst (day_rollover (minute_tick m1 m2 (s, False))))"
  "t_hour (time_handle io m1 m2 s) = t_hour s"
  "t_minute (time_handle io m1 m2 s) = t_minute s"
  "everyMinute_tick (time_handle io m1 m2 s) =
     everyMinute_tick (fst (minute_tick m1 m2 (s, False)))"
  by (subst time_handle_frame,
      simp add: counters_def day_rollover_clock minute_tick_clock)+

lemma time_handle_counters_off_rollover:
  "\<not> (t_hour s = CLOCK_ENDSESSION_HOUR \<and> t_minute s = 0) \<Longrightarrow>
     counters (time_handle io m1 m2 s) = counters (fst (minute_tick m1 m2 (s, False)))"
proof -
  assume off: "\<not> (t_hour s = CLOCK_ENDSESSION_HOUR \<and> t_minute s = 0)"
  obtain s1 d1 where t: "minute_tick m1 m2 (s, False) = (s1, d1)"
    by (cases "minute_tick m1 m2 (s, False)")
  then have "s1 = fst (minute_tick m1 m2 (s, False))" by simp
  then have "t_hour s1 = t_hour s" "t_minute s1 = t_minute s"
    by (simp_all add: minute_tick_clock)
  with off have "fst (day_rollover (s1, d1)) = s1"
    by (auto simp add: day_rollover_state)
  with t show ?thesis by (simp add: time_handle_fields)
qed

lemma day_rollover_counters_again:
  "counters (fst (day_rollover ((fst (day_rollover sd))\<lparr>data_file := f\<rparr>, d'))) =
     counters (fst (day_rollover sd))"
  by (cases sd) (simp add: day_rollover_state counters_def)

lemma minute_tick_not_due:
  "\<not> everyMinute_tick s < m1 \<Longrightarrow> minute_tick m1 m2 (s, d) = (s, d)"
  by (simp add: minute_tick_def)

text \<open>
  Claim C6, as the code has it. There is no edge detector: every call of
  \<^verbatim>\<open>time_handle\<close> that finds the clock at hour 6 and minute 0 runs the reset (it sets
  the save flag and leaves both today counters at 0), and it leaves the clock fields, so
  the next call does the same. A further call in which no minute tick is due leaves the
  ten counters as the call before left them.
\<close>

theorem time_handle_rollover_every_poll:
  assumes "t_hour s = CLOCK_ENDSESSION_HOUR" and "t_minute s = 0"
  shows "snd (day_rollover (minute_tick m1 m2 (s, False))) \<and>
         time_ps5_today_mins (time_handle io m1 m2 s) = 0 \<and>
         time_switch_today_mins (time_handle io m1 m2 s) = 0 \<and>
         t_hour (time_handle io m1 m2 s) = CLOCK_ENDSESSION_HOUR \<and>
         t_minute (time_handle io m1 m2 s) = 0 \<and>
         (\<not> everyMinute_tick (time_handle io m1 m2 s) < m3 \<longrightarrow>
            counters (time_handle io' m3 m4 (time_handle io m1 m2 s)) =
              counters (time_handle io m1 m2 s))"
proof -
  let ?t = "minute_tick m1 m2 (s, False)"
  let ?s1 = "time_handle io m1 m2 s"
  have h: "t_hour (fst ?t) = CLOCK_ENDSESSION_HOUR" "t_minute (fst ?t) = 0"
    using assms by (simp_all add: minute_tick_clock)
  note due = day_rollover_due [OF h]
  have again: "counters (time_handle io' m3 m4 ?s1) = counters ?s1"
    if nd: "\<not> everyMinute_tick ?s1 < m3"
  proof -
    have "counters (time_handle io' m3 m4 ?s1) = counters (fst (day_rollover (?s1, False)))"
      by (simp add: time_handle_fields minute_tick_not_due [OF nd])
    also have "\<dots> = counters (fst (day_rollover
        ((fst (day_rollover ?t))\<lparr>data_file := data_file ?s1\<rparr>, False)))"
      by (subst time_handle_frame) simp
    also have "\<dots> = counters (fst (day_rollover ?t))"
      by (rule day_rollover_counters_again)
    finally show ?thesis by (simp add: time_handle_fields)
  qed
  from due again assms show ?thesis
    by (simp add: time_handle_fields)
qed


lemma first_poll_at_0600:
  "time_handle io_ok 1000 1000 ps5_at_0600 =
     ps5_at_0600
       \<lparr>time_ps5_today_mins := 0, time_switch_today_mins := 0,
        data_file := Some (Document
          [(''ps_t'', 0), (''ps_w'', 20), (''ps_m'', 30), (''ps_y'', 40), (''ps_s'', 50),
           (''sw_t'', 0), (''sw_w'', 21), (''sw_m'', 31), (''sw_y'', 41), (''sw_s'', 51)])\<rparr>"
  by (simp add: time_handle_def minute_tick_def day_rollover_def fs_save_data_file_def
      save_opened_def update_data_def ps5_at_0600_def playing_ps5_def boot_state_def io_ok_def
      key_defs screen_defs CLOCK_ENDSESSION_HOUR_def CLOCK_STARTWEEK_DAY_def Let_def)

text \<open>
  Two passes at 06:00 with the PS5 play screen shown and no minute tick due.
\<close>

theorem time_handle_rollover_every_poll_witness:
  "t_hour ps5_at_0600 = CLOCK_ENDSESSION_HOUR \<and> t_minute ps5_at_0600 = 0 \<and>
   snd (day_rollover (minute_tick 1000 1000 (ps5_at_0600, False))) \<and>
   counters (time_handle io_ok 1000 1000 ps5_at_0600) = [0, 20, 30, 40, 50, 0, 21, 31, 41, 51] \<and>
   \<not> everyMinute_tick (time_handle io_ok 1000 1000 ps5_at_0600) < 2000 \<and>
   counters (time_handle io_ok 2000 2000 (time_handle io_ok 1000 1000 ps5_at_0600)) =
     [0, 20, 30, 40, 50, 0, 21, 31, 41, 51]"
proof -
  have h: "t_hour ps5_at_0600 = CLOCK_ENDSESSION_HOUR"
    by (simp add: ps5_at_0600_def CLOCK_ENDSESSION_HOUR_def)
  have m: "t_minute ps5_at_0600 = 0"
    by (simp add: ps5_at_0600_def)
  have c: "counters (time_handle io_ok 1000 1000 ps5_at_0600) =
      [0, 20, 30, 40, 50, 0, 21, 31, 41, 51]"
    by (simp only: first_poll_at_0600)
      (simp add: counters_def ps5_at_0600_def playing_ps5_def boot_state_def)
  have nd: "\<not> everyMinute_tick (time_handle io_ok 1000 1000 ps5_at_0600) < 2000"
    by (simp only: first_poll_at_0600) (simp add: ps5_at_0600_def)
  from time_handle_rollover_every_poll [OF h m, of 1000 1000 io_ok 2000 io_ok 2000] h m c nd
  show ?thesis by simp
qed

text \<open>
  Claim C6 as stated fails. After a first pass at 06:00 the clock still reads 06:00; a
  second pass in which no minute tick is due sets the save flag again, which only the
  reset does there; and a pass in the same minute in which the tick fires counts the
  minute (today would be 1) and then resets today to 0 once more, while week, month, year
  and sum keep the minute.
\<close>

theorem time_handle_rollover_counterexample:
  "t_hour (time_handle io_ok 1000 1000 ps5_at_0600) = 6 \<and>
   t_minute (time_handle io_ok 1000 1000 ps5_at_0600) = 0 \<and>
   \<not> snd (minute_tick 2000 2000 (time_handle io_ok 1000 1000 ps5_at_0600, False)) \<and>
   snd (day_rollover (minute_tick 2000 2000 (time_handle io_ok 1000 1000 ps5_at_0600, False))) \<and>
   counters (fst (minute_tick 60001 60001 (time_handle io_ok 1000 1000 ps5_at_0600, False))) =
     [1, 21, 31, 41, 51, 0, 21, 31, 41, 51] \<and>
   counters (time_handle io_ok 60001 60001 (time_handle io_ok 1000 1000 ps5_at_0600)) =
     [0, 21, 31, 41, 51, 0, 21, 31, 41, 51]"
  by (simp only: time_handle_fields first_poll_at_0600)
    (simp add: minute_tick_def day_rollover_def
      counters_def ps5_at_0600_def playing_ps5_def boot_state_def
      screen_defs CLOCK_ENDSESSION_HOUR_def CLOCK_STARTWEEK_DAY_def Let_def)


subsection \<open>Receiver callbacks\<close>

lemma strncmp_eq_exact:
  "strncmp_eq (v @ rest) v (length v)"
  by (simp add: strncmp_eq_def)

lemma tick_seq_file: "data_file (tick_seq ms s) = data_file s"
  by (induction ms s rule: tick_seq.induct) (simp_all add: minute_tick_file)

lemma denon_inputChanged_frame:
  "denon_inputChanged dc io response len s =
     s\<lparr>data_file := data_file (fs_save_data_file io s),
       sm_screen :=
         (if strncmp_eq response (AVR_INPUT_PS5 dc) (unat (len - 1)) then SM_SCREEN_PLAY_PS5
          else if strncmp_eq response (AVR_INPUT_SWITCH dc) (unat (len - 1))
          then SM_SCREEN_PLAY_SWITCH
          else SM_SCREEN_IDLE),
       sm_screen_forceRefresh := True\<rparr>"
proof -
  let ?scr = "if strncmp_eq response (AVR_INPUT_PS5 dc) (unat (len - 1)) then SM_SCREEN_PLAY_PS5
          else if strncmp_eq response (AVR_INPUT_SWITCH dc) (unat (len - 1))
          then SM_SCREEN_PLAY_SWITCH
          else SM_SCREEN_IDLE"
  have "denon_inputChanged dc io response len s =
      (fs_save_data_file io s)\<lparr>sm_screen := ?scr, sm_screen_forceRefresh := True\<rparr>"
    by (simp add: denon_inputChanged_def Let_def)
  also have "fs_save_data_file io s = s\<lparr>data_file := data_file (fs_save_data_file io s)\<rparr>"
    by (rule fs_save_data_file_frame)
  finally show ?thesis by simp
qed

text \<open>
  Claim C8. \<^verbatim>\<open>denon_inputChanged\<close> leaves the ten counters; the file afterwards is
  what \<^verbatim>\<open>fs_save_data_file\<close> makes of it with the counters as they are at the call
  (the document with the ten members set, when the file parses and the write succeeds);
  the screen becomes the PS5 play screen when the first \<^verbatim>\<open>len-1\<close> characters match
  \<^verbatim>\<open>AVR_INPUT_PS5\<close>, else the Switch play screen when they match
  \<^verbatim>\<open>AVR_INPUT_SWITCH\<close>, else the idle screen; a notification that carries exactly
  the name of a tracked input, with \<^verbatim>\<open>len-1\<close> its length, matches it. After three firing minute ticks on the
  PS5 play screen and a change to the Switch input, the PS5 counters are 3 higher, the
  Switch counters unchanged, the Switch play screen is shown and the file is the saved
  state of these counters.
\<close>

theorem denon_inputChanged_effect:
  "counters (denon_inputChanged dc io response len s) = counters s \<and>
   data_file (denon_inputChanged dc io response len s) = data_file (fs_save_data_file io s) \<and>
   sm_screen (denon_inputChanged dc io response len s) =
     (if strncmp_eq response (AVR_INPUT_PS5 dc) (unat (len - 1)) then SM_SCREEN_PLAY_PS5
      else if strncmp_eq response (AVR_INPUT_SWITCH dc) (unat (len - 1))
      then SM_SCREEN_PLAY_SWITCH
      else SM_SCREEN_IDLE) \<and>
   (sm_screen s = SM_SCREEN_PLAY_PS5 \<and> all_fire [p1, p2, p3] s \<and>
    \<not> strncmp_eq response (AVR_INPUT_PS5 dc) (unat (len - 1)) \<and>
    strncmp_eq response (AVR_INPUT_SWITCH dc) (unat (len - 1)) \<longrightarrow>
      ps5_counters (denon_inputChanged dc io response len (tick_seq [p1, p2, p3] s)) =
        map (\<lambda>c. c + 3) (ps5_counters s) \<and>
      switch_counters (denon_inputChanged dc io response len (tick_seq [p1, p2, p3] s)) =
        switch_counters s \<and>
      sm_screen (denon_inputChanged dc io response len (tick_seq [p1, p2, p3] s)) =
        SM_SCREEN_PLAY_SWITCH \<and>
      data_file (denon_inputChanged dc io response len (tick_seq [p1, p2, p3] s)) =
        data_file (fs_save_data_file io (tick_seq [p1, p2, p3] s))) \<and>
   (data_file s = Some (Document d) \<and> serialize_ok io \<longrightarrow>
      data_file (denon_inputChanged dc io response len s) =
        Some (Document (update_data s d))) \<and>
   (response = AVR_INPUT_PS5 dc @ rest \<and> unat (len - 1) = length (AVR_INPUT_PS5 dc) \<longrightarrow>
      sm_screen (denon_inputChanged dc io response len s) = SM_SCREEN_PLAY_PS5) \<and>
   (response = AVR_INPUT_SWITCH dc @ rest \<and> unat (len - 1) = length (AVR_INPUT_SWITCH dc) \<and>
    \<not> strncmp_eq response (AVR_INPUT_PS5 dc) (unat (len - 1)) \<longrightarrow>
      sm_screen (denon_inputChanged dc io response len s) = SM_SCREEN_PLAY_SWITCH)"
proof (intro conjI impI)
  assume "response = AVR_INPUT_PS5 dc @ rest \<and> unat (len - 1) = length (AVR_INPUT_PS5 dc)"
  then show "sm_screen (denon_inputChanged dc io response len s) = SM_SCREEN_PLAY_PS5"
    by (subst denon_inputChanged_frame) (simp add: strncmp_eq_exact)
next
  assume a: "response = AVR_INPUT_SWITCH dc @ rest \<and>
    unat (len - 1) = length (AVR_INPUT_SWITCH dc) \<and>
    \<not> strncmp_eq response (AVR_INPUT_PS5 dc) (unat (len - 1))"
  then have n: "\<not> strncmp_eq response (AVR_INPUT_PS5 dc) (unat (len - 1))"
    by (rule conjunct2 [THEN conjunct2])
  from a have m: "strncmp_eq response (AVR_INPUT_SWITCH dc) (unat (len - 1))"
    by (simp add: strncmp_eq_exact)
  show "sm_screen (denon_inputChanged dc io response len s) = SM_SCREEN_PLAY_SWITCH"
    by (subst denon_inputChanged_frame) (simp add: n m)
next
  assume "data_file s = Some (Document d) \<and> serialize_ok io"
  then show "data_file (denon_inputChanged dc io response len s) =
      Some (Document (update_data s d))"
    by (subst denon_inputChanged_frame) (simp add: fs_save_data_file_file)
next
  show "counters (denon_inputChanged dc io response len s) = counters s"
    by (subst denon_inputChanged_frame) (simp add: counters_def)
  show "data_file (denon_inputChanged dc io response len s) = data_file (fs_save_data_file io s)"
    by (subst denon_inputChanged_frame) simp
  show "sm_screen (denon_inputChanged dc io response len s) =
     (if strncmp_eq response (AVR_INPUT_PS5 dc) (unat (len - 1)) then SM_SCREEN_PLAY_PS5
      else if strncmp_eq response (AVR_INPUT_SWITCH dc) (unat (len - 1))
      then SM_SCREEN_PLAY_SWITCH
      else SM_SCREEN_IDLE)"
    by (subst denon_inputChanged_frame) simp
next
  let ?s3 = "tick_seq [p1, p2, p3] s"
  assume a: "sm_screen s = SM_SCREEN_PLAY_PS5 \<and> all_fire [p1, p2, p3] s \<and>
    \<not> strncmp_eq response (AVR_INPUT_PS5 dc) (unat (len - 1)) \<and>
    strncmp_eq response (AVR_INPUT_SWITCH dc) (unat (len - 1))"
  then have t: "ps5_counters ?s3 = map (\<lambda>c. c + 3) (ps5_counters s)"
      "switch_counters ?s3 = switch_counters s"
    using tick_seq_ps5 [of "[p1, p2, p3]" s] by simp_all
  show "ps5_counters (denon_inputChanged dc io response len ?s3) =
      map (\<lambda>c. c + 3) (ps5_counters s)"
    unfolding t(1) [symmetric]
    by (subst denon_inputChanged_frame) (simp add: ps5_counters_def)
  show "switch_counters (denon_inputChanged dc io response len ?s3) = switch_counters s"
    unfolding t(2) [symmetric]
    by (subst denon_inputChanged_frame) (simp add: switch_counters_def)
  from a show "sm_screen (denon_inputChanged dc io response len ?s3) = SM_SCREEN_PLAY_SWITCH"
    by (subst denon_inputChanged_frame) simp
  show "data_file (denon_inputChanged dc io response len ?s3) =
      data_file (fs_save_data_file io ?s3)"
    by (subst denon_inputChanged_frame) simp
qed

lemma three_ticks_playing_ps5:
  "tick_seq three_ticks playing_ps5 =
     playing_ps5
       \<lparr>everyMinute_tick := 180004,
        time_ps5_today_mins := 13, time_ps5_week_mins := 23, time_ps5_month_mins := 33,
        time_ps5_year_mins := 43, time_ps5_sum_mins := 53\<rparr>"
  by (simp add: three_ticks_def minute_tick_def playing_ps5_def boot_state_def screen_defs
      Let_def)

text \<open>
  Scenario B with counters 10, 20, ... and an empty record on flash, and notifications
  of the PS5 input and of an input that is not tracked.
\<close>

theorem denon_inputChanged_effect_witness:
  "sm_screen playing_ps5 = SM_SCREEN_PLAY_PS5 \<and>
   all_fire [(1, 1), (60002, 60003), (120004, 120004)] playing_ps5 \<and>
   \<not> strncmp_eq (notification ''GAME'') (AVR_INPUT_PS5 example_commands) (unat (5 - 1 :: u32)) \<and>
   strncmp_eq (notification ''GAME'') (AVR_INPUT_SWITCH example_commands) (unat (5 - 1 :: u32)) \<and>
   ps5_counters (denon_inputChanged example_commands io_ok (notification ''GAME'') 5
       (tick_seq [(1, 1), (60002, 60003), (120004, 120004)] playing_ps5)) =
     [13, 23, 33, 43, 53] \<and>
   switch_counters (denon_inputChanged example_commands io_ok (notification ''GAME'') 5
       (tick_seq [(1, 1), (60002, 60003), (120004, 120004)] playing_ps5)) =
     [11, 21, 31, 41, 51] \<and>
   sm_screen (denon_inputChanged example_commands io_ok (notification ''GAME'') 5
       (tick_seq [(1, 1), (60002, 60003), (120004, 120004)] playing_ps5)) =
     SM_SCREEN_PLAY_SWITCH \<and>
   data_file (denon_inputChanged example_commands io_ok (notification ''GAME'') 5
       (tick_seq [(1, 1), (60002, 60003), (120004, 120004)] playing_ps5)) =
     Some (Document
       [(''ps_t'', 13), (''ps_w'', 23), (''ps_m'', 33), (''ps_y'', 43), (''ps_s'', 53),
        (''sw_t'', 11), (''sw_w'', 21), (''sw_m'', 31), (''sw_y'', 41), (''sw_s'', 51)]) \<and>
   sm_screen (denon_inputChanged example_commands io_ok (notification ''BD'') 3 playing_ps5) =
     SM_SCREEN_PLAY_PS5 \<and>
   sm_screen (denon_inputChanged example_commands io_ok (notification ''TV'') 3 playing_ps5) =
     SM_SCREEN_IDLE"
proof -
  have scr: "sm_screen playing_ps5 = SM_SCREEN_PLAY_PS5"
    by (simp add: playing_ps5_def)
  have fire: "all_fire [(1, 1), (60002, 60003), (120004, 120004)] playing_ps5"
    by (simp add: playing_ps5_def boot_state_def minute_tick_state screen_defs)
  have n5: "\<not> strncmp_eq (notification ''GAME'') (AVR_INPUT_PS5 example_commands) (unat (5 - 1 :: u32))"
    by (simp add: strncmp_eq_def notification_def AVR_INPUT_PS5_def example_commands_def)
  have sw: "strncmp_eq (notification ''GAME'') (AVR_INPUT_SWITCH example_commands) (unat (5 - 1 :: u32))"
    by (simp add: strncmp_eq_def notification_def AVR_INPUT_SWITCH_def example_commands_def)
  have saved: "data_file (fs_save_data_file io_ok
       (tick_seq [(1, 1), (60002, 60003), (120004, 120004)] playing_ps5)) =
     Some (Document
       [(''ps_t'', 13), (''ps_w'', 23), (''ps_m'', 33), (''ps_y'', 43), (''ps_s'', 53),
        (''sw_t'', 11), (''sw_w'', 21), (''sw_m'', 31), (''sw_y'', 41), (''sw_s'', 51)])"
    unfolding three_ticks_def [symmetric] three_ticks_playing_ps5
    by (simp add: fs_save_data_file_file update_data_Nil update_data_file_irrelevant
        playing_ps5_def boot_state_def io_ok_def key_defs)
  have bd: "strncmp_eq (notification ''BD'') (AVR_INPUT_PS5 example_commands) (unat (3 - 1 :: u32))"
    by (simp add: strncmp_eq_def notification_def AVR_INPUT_PS5_def example_commands_def)
  have tv: "\<not> strncmp_eq (notification ''TV'') (AVR_INPUT_PS5 example_commands) (unat (3 - 1 :: u32))"
      "\<not> strncmp_eq (notification ''TV'') (AVR_INPUT_SWITCH example_commands) (unat (3 - 1 :: u32))"
    by (simp_all add: strncmp_eq_def notification_def AVR_INPUT_PS5_def AVR_INPUT_SWITCH_def
        example_commands_def)
  have vals: "map (\<lambda>c. c + 3) (ps5_counters playing_ps5) = [13, 23, 33, 43, 53]"
      "switch_counters playing_ps5 = [11, 21, 31, 41, 51]"
    by (simp_all add: counters_defs playing_ps5_def boot_state_def)
  from denon_inputChanged_effect
         [of example_commands io_ok "notification ''GAME''" 5 playing_ps5
             "(1, 1)" "(60002, 60003)" "(120004, 120004)" "[]" "[CHR 0x0D]"]
       denon_inputChanged_effect
         [of example_commands io_ok "notification ''BD''" 3 playing_ps5
             "(1, 1)" "(60002, 60003)" "(120004, 120004)" "[]" "[CHR 0x0D]"]
       denon_inputChanged_effect
         [of example_commands io_ok "notification ''TV''" 3 playing_ps5
             "(1, 1)" "(60002, 60003)" "(120004, 120004)" "[]" "[CHR 0x0D]"]
       scr fire n5 sw bd tv
  show ?thesis
    by (simp only: saved vals simp_thms if_True if_False)
qed


lemma fs_load_data_file_other:
  "sm_screen (snd (fs_load_data_file io s)) = sm_screen s"
  "sm_screen_forceRefresh (snd (fs_load_data_file io s)) = sm_screen_forceRefresh s"
  "avr_sent (snd (fs_load_data_file io s)) = avr_sent s"
  by (simp_all add: fs_load_data_file_def fs_create_data_file_def load_opened_Nil
      load_opened_other split: option.split)

text \<open>
  Claim C9, as the code has it. On a power-on notification \<^verbatim>\<open>denon_powerChanged\<close>
  loads the data file into the counters and sends the query for the selected input; it
  does not touch the screen state, so the active input is what it was: when no play
  screen was shown, a minute tick after the notification changes no counter.
\<close>

theorem denon_powerChanged_on:
  assumes "strncmp_eq response (ON dc) (unat (len - 1))"
  shows "denon_powerChanged dc io response len s =
           (snd (fs_load_data_file io s))\<lparr>avr_sent := avr_sent s @ [(INPUT_SOURCE dc, ''?'')]\<rparr> \<and>
         sm_screen (denon_powerChanged dc io response len s) = sm_screen s \<and>
         (sm_screen s \<noteq> SM_SCREEN_PLAY_PS5 \<and> sm_screen s \<noteq> SM_SCREEN_PLAY_SWITCH \<longrightarrow>
            counters (fst (minute_tick m1 m2 (denon_powerChanged dc io response len s, False))) =
              counters (denon_powerChanged dc io response len s))"
proof -
  have e: "denon_powerChanged dc io response len s =
      (snd (fs_load_data_file io s))\<lparr>avr_sent := avr_sent s @ [(INPUT_SOURCE dc, ''?'')]\<rparr>"
    using assms by (simp add: denon_powerChanged_def Let_def fs_load_data_file_other)
  have scr: "sm_screen (denon_powerChanged dc io response len s) = sm_screen s"
    by (simp add: e fs_load_data_file_other)
  have idle: "counters (fst (minute_tick m1 m2 (t, False))) = counters t"
    if "sm_screen t \<noteq> SM_SCREEN_PLAY_PS5" "sm_screen t \<noteq> SM_SCREEN_PLAY_SWITCH" for t
    using that by (simp add: minute_tick_state counters_def)
  from e scr idle [of "denon_powerChanged dc io response len s"] show ?thesis
    by simp
qed


text \<open>
  Power-on with the statistics screen shown and the record of scenario A on flash.
\<close>

theorem denon_powerChanged_on_witness:
  "strncmp_eq (notification ''ON'') (ON example_commands) (unat (3 - 1 :: u32)) \<and>
   avr_sent (denon_powerChanged example_commands io_ok (notification ''ON'') 3
       ((boot_state (Some (Document scenario_a_record)))\<lparr>sm_screen := SM_SCREEN_STATS_PS5\<rparr>)) =
     [(''SI'', ''?'')] \<and>
   counters (denon_powerChanged example_commands io_ok (notification ''ON'') 3
       ((boot_state (Some (Document scenario_a_record)))\<lparr>sm_screen := SM_SCREEN_STATS_PS5\<rparr>)) =
     [5, 60, 0, 0, 0, 0, 0, 0, 0, 0] \<and>
   sm_screen (denon_powerChanged example_commands io_ok (notification ''ON'') 3
       ((boot_state (Some (Document scenario_a_record)))\<lparr>sm_screen := SM_SCREEN_STATS_PS5\<rparr>)) =
     SM_SCREEN_STATS_PS5 \<and>
   counters (fst (minute_tick 1 1
       (denon_powerChanged example_commands io_ok (notification ''ON'') 3
          ((boot_state (Some (Document scenario_a_record)))\<lparr>sm_screen := SM_SCREEN_STATS_PS5\<rparr>),
        False))) =
     [5, 60, 0, 0, 0, 0, 0, 0, 0, 0]"
proof -
  let ?s = "(boot_state (Some (Document scenario_a_record)))\<lparr>sm_screen := SM_SCREEN_STATS_PS5\<rparr>"
  have on: "strncmp_eq (notification ''ON'') (ON example_commands) (unat (3 - 1 :: u32))"
    by (simp add: strncmp_eq_def notification_def example_commands_def)
  have l: "counters (snd (fs_load_data_file io_ok ?s)) = [5, 60, 0, 0, 0, 0, 0, 0, 0, 0]"
    by (simp add: fs_load_data_file_document load_opened_counters scenario_a_record_def
        boot_state_def key_defs json_as_counter_def)
  have c: "counters (t\<lparr>avr_sent := x\<rparr>) = counters t" for t x
    by (simp add: counters_def)
  let ?p = "denon_powerChanged example_commands io_ok (notification ''ON'') 3 ?s"
  note t = denon_powerChanged_on [OF on, of io_ok ?s 1 1]
  note e = t [THEN conjunct1]
  note scr = t [THEN conjunct2, THEN conjunct1]
  have idle: "sm_screen ?s \<noteq> SM_SCREEN_PLAY_PS5 \<and> sm_screen ?s \<noteq> SM_SCREEN_PLAY_SWITCH"
    by (simp add: screen_defs)
  note tick = mp [OF t [THEN conjunct2, THEN conjunct2] idle]
  have sent: "avr_sent ?p = [(''SI'', ''?'')]"
    by (subst e) (simp add: boot_state_def example_commands_def)
  have cnt: "counters ?p = [5, 60, 0, 0, 0, 0, 0, 0, 0, 0]"
    by (subst e) (simp only: c l)
  have scr': "sm_screen ?p = SM_SCREEN_STATS_PS5"
    by (simp only: scr) simp
  from on sent cnt scr' tick show ?thesis
    by (simp only: simp_thms)
qed

text \<open>
  Claim C9 as stated fails: a power-on notification that arrives while the PS5 play screen
  is shown leaves it shown, and the next minute tick counts for the PS5.
\<close>

theorem denon_powerChanged_on_counterexample:
  "sm_screen (denon_powerChanged example_commands io_ok (notification ''ON'') 3 playing_ps5) =
     SM_SCREEN_PLAY_PS5 \<and>
   sm_screen (denon_powerChanged example_commands io_ok (notification ''ON'') 3 playing_ps5) \<noteq>
     SM_SCREEN_IDLE \<and>
   ps5_counters (denon_powerChanged example_commands io_ok (notification ''ON'') 3 playing_ps5) =
     [10, 20, 30, 40, 50] \<and>
   ps5_counters (fst (minute_tick 1 1
       (denon_powerChanged example_commands io_ok (notification ''ON'') 3 playing_ps5, False))) =
     [11, 21, 31, 41, 51]"
  by (simp add: denon_powerChanged_def strncmp_eq_def notification_def example_commands_def
      fs_load_data_file_def load_opened_Nil minute_tick_def Let_def
      playing_ps5_def boot_state_def ps5_counters_def screen_defs)

subsection \<open>Keys missing from the record\<close>

lemma missing_keys_zero_cong:
  "data_file s' = data_file s \<Longrightarrow> counters s' = counters s \<Longrightarrow>
     missing_keys_zero s' = missing_keys_zero s"
  by (simp add: missing_keys_zero_def cong: option.case_cong file_content.case_cong)

lemma containsKey_update_data: "list_all (containsKey (update_data s d)) TIME_KEYS"
  by (simp add: containsKey_def map_of_update_data TIME_KEYS_def key_defs)

lemma list_all2_disjI1: "length ks = length cs \<Longrightarrow> list_all P ks \<Longrightarrow> list_all2 (\<lambda>k c. P k \<or> Q c) ks cs"
  by (induction ks cs rule: list_induct2) simp_all

lemma length_counters: "length (counters s) = 10"
  by (simp add: counters_def)

lemma missing_keys_zero_save:
  assumes "data_file s \<noteq> None"
  shows "missing_keys_zero (fs_save_data_file io s)"
proof -
  from assms obtain c where c: "data_file s = Some c" by auto
  show ?thesis
  proof (cases c)
    case (Unparseable raw)
    with c show ?thesis
      by (simp add: fs_save_data_file_unparseable missing_keys_zero_def)
  next
    case (Document d)
    have "list_all2 (\<lambda>k c. containsKey (update_data s d) k \<or> c = 0) TIME_KEYS (counters s)"
    proof (rule list_all2_disjI1)
      show "length TIME_KEYS = length (counters s)"
        by (simp add: length_counters TIME_KEYS_def)
      show "list_all (containsKey (update_data s d)) TIME_KEYS"
        by (rule containsKey_update_data)
    qed
    with c Document show ?thesis
      by (simp add: missing_keys_zero_def fs_save_data_file_file fs_save_data_file_counters)
  qed
qed

lemma missing_keys_zero_exists: "missing_keys_zero s \<Longrightarrow> data_file s \<noteq> None"
  by (auto simp add: missing_keys_zero_def split: option.splits)

lemma key_kept:
  "containsKey d k \<or> c = 0 \<Longrightarrow>
     containsKey d k \<or> (case map_of d k of None \<Rightarrow> c | Some v \<Rightarrow> json_as_counter v) = 0"
  by (auto simp add: containsKey_def split: option.splits)

lemma key_zero:
  "containsKey d k \<or> c = 0 \<Longrightarrow>
     (case map_of d k of None \<Rightarrow> c | Some v \<Rightarrow> json_as_counter v) =
     (case map_of d k of None \<Rightarrow> 0 | Some v \<Rightarrow> json_as_counter v)"
  by (auto simp add: containsKey_def split: option.split)

lemma missing_keys_zero_conjs:
  assumes "data_file s = Some (Document d)" and "missing_keys_zero s"
  shows "containsKey d TIME_PS5_TODAY \<or> time_ps5_today_mins s = 0"
    and "containsKey d TIME_PS5_WEEK \<or> time_ps5_week_mins s = 0"
    and "containsKey d TIME_PS5_MONTH \<or> time_ps5_month_mins s = 0"
    and "containsKey d TIME_PS5_YEAR \<or> time_ps5_year_mins s = 0"
    and "containsKey d TIME_PS5_SUM \<or> time_ps5_sum_mins s = 0"
    and "containsKey d TIME_SWITCH_TODAY \<or> time_switch_today_mins s = 0"
    and "containsKey d TIME_SWITCH_WEEK \<or> time_switch_week_mins s = 0"
    and "containsKey d TIME_SWITCH_MONTH \<or> time_switch_month_mins s = 0"
    and "containsKey d TIME_SWITCH_YEAR \<or> time_switch_year_mins s = 0"
    and "containsKey d TIME_SWITCH_SUM \<or> time_switch_sum_mins s = 0"
  using assms by (simp_all add: missing_keys_zero_def TIME_KEYS_def counters_def)

lemma missing_keys_zero_load:
  assumes "missing_keys_zero s"
  shows "missing_keys_zero (snd (fs_load_data_file io s))"
proof -
  from assms obtain c where c: "data_file s = Some c"
    by (auto dest: missing_keys_zero_exists)
  show ?thesis
  proof (cases c)
    case (Unparseable raw)
    with c assms show ?thesis by (simp add: fs_load_data_file_unparseable)
  next
    case (Document d)
    with c have f: "data_file s = Some (Document d)" by simp
    note k = missing_keys_zero_conjs [OF f assms, THEN key_kept]
    have "list_all2 (\<lambda>k c. containsKey d k \<or> c = 0) TIME_KEYS
        (counters (load_opened (Document d) s))"
      unfolding load_opened_counters TIME_KEYS_def
      by (simp only: list_all2_Cons list_all2_Nil k simp_thms)
    with f show ?thesis
      by (simp add: missing_keys_zero_def fs_load_data_file_document load_opened_other)
  qed
qed

lemma load_missing_zero:
  assumes "data_file s = Some (Document d)" and "missing_keys_zero s"
  shows "counters (snd (fs_load_data_file io s)) =
     [case map_of d TIME_PS5_TODAY of None \<Rightarrow> 0 | Some v \<Rightarrow> json_as_counter v,
      case map_of d TIME_PS5_WEEK of None \<Rightarrow> 0 | Some v \<Rightarrow> json_as_counter v,
      case map_of d TIME_PS5_MONTH of None \<Rightarrow> 0 | Some v \<Rightarrow> json_as_counter v,
      case map_of d TIME_PS5_YEAR of None \<Rightarrow> 0 | Some v \<Rightarrow> json_as_counter v,
      case map_of d TIME_PS5_SUM of None \<Rightarrow> 0 | Some v \<Rightarrow> json_as_counter v,
      case map_of d TIME_SWITCH_TODAY of None \<Rightarrow> 0 | Some v \<Rightarrow> json_as_counter v,
      case map_of d TIME_SWITCH_WEEK of None \<Rightarrow> 0 | Some v \<Rightarrow> json_as_counter v,
      case map_of d TIME_SWITCH_MONTH of None \<Rightarrow> 0 | Some v \<Rightarrow> json_as_counter v,
      case map_of d TIME_SWITCH_YEAR of None \<Rightarrow> 0 | Some v \<Rightarrow> json_as_counter v,
      case map_of d TIME_SWITCH_SUM of None \<Rightarrow> 0 | Some v \<Rightarrow> json_as_counter v]"
proof -
  note k = missing_keys_zero_conjs [OF assms]
  note z = k [THEN key_zero]
  show ?thesis
    unfolding fs_load_data_file_document [OF assms(1)] load_opened_counters
    by (simp only: z)
qed


lemma no_save_no_change:
  "\<not> snd (day_rollover (minute_tick m1 m2 (s, False))) \<Longrightarrow>
     counters (fst (day_rollover (minute_tick m1 m2 (s, False)))) = counters s"
  by (auto simp add: minute_tick_def day_rollover_def Let_def counters_def split: if_splits)

lemma missing_keys_zero_time_handle:
  assumes "missing_keys_zero s"
  shows "missing_keys_zero (time_handle io m1 m2 s)"
proof (cases "snd (day_rollover (minute_tick m1 m2 (s, False)))")
  case True
  have "data_file (fst (day_rollover (minute_tick m1 m2 (s, False)))) \<noteq> None"
    using assms by (simp add: day_rollover_file minute_tick_file missing_keys_zero_exists)
  then have "missing_keys_zero
      (fs_save_data_file io (fst (day_rollover (minute_tick m1 m2 (s, False)))))"
    by (rule missing_keys_zero_save)
  with True show ?thesis by (simp add: time_handle_unfold)
next
  case False
  have "missing_keys_zero (fst (day_rollover (minute_tick m1 m2 (s, False)))) =
      missing_keys_zero s"
    by (rule missing_keys_zero_cong)
      (simp_all add: day_rollover_file minute_tick_file no_save_no_change [OF False])
  with False assms show ?thesis by (simp add: time_handle_unfold)
qed

lemma missing_keys_zero_inputChanged:
  assumes "missing_keys_zero s"
  shows "missing_keys_zero (denon_inputChanged dc io response len s)"
proof -
  have "missing_keys_zero (denon_inputChanged dc io response len s) =
      missing_keys_zero (fs_save_data_file io s)"
    by (rule missing_keys_zero_cong)
      (simp_all add: denon_inputChanged_def Let_def counters_def)
  then show ?thesis
    using assms by (simp add: missing_keys_zero_save missing_keys_zero_exists)
qed

lemma missing_keys_zero_powerChanged:
  assumes "missing_keys_zero s"
  shows "missing_keys_zero (denon_powerChanged dc io response len s)"
proof -
  have on: "missing_keys_zero
      ((snd (fs_load_data_file io s))\<lparr>avr_sent := x\<rparr>)" for x
  proof -
    have "missing_keys_zero ((snd (fs_load_data_file io s))\<lparr>avr_sent := x\<rparr>) =
        missing_keys_zero (snd (fs_load_data_file io s))"
      by (rule missing_keys_zero_cong) (simp_all add: counters_def)
    then show ?thesis using assms by (simp add: missing_keys_zero_load)
  qed
  have off: "missing_keys_zero
      ((fs_save_data_file io s)\<lparr>sm_screen := x, sm_screen_forceRefresh := y\<rparr>)" for x y
  proof -
    have "missing_keys_zero
        ((fs_save_data_file io s)\<lparr>sm_screen := x, sm_screen_forceRefresh := y\<rparr>) =
        missing_keys_zero (fs_save_data_file io s)"
      by (rule missing_keys_zero_cong) (simp_all add: counters_def)
    then show ?thesis
      using assms by (simp add: missing_keys_zero_save missing_keys_zero_exists)
  qed
  from on off assms show ?thesis
    by (simp add: denon_powerChanged_def Let_def)
qed

lemma missing_keys_zero_reset:
  assumes "missing_keys_zero s"
  shows "missing_keys_zero (fs_reset_data_file io s)"
  unfolding fs_reset_data_file_def
  by (rule missing_keys_zero_save) (simp add: assms missing_keys_zero_exists)

lemma missing_keys_zero_step:
  assumes "missing_keys_zero s"
  shows "missing_keys_zero (step dc e s)"
proof (cases e)
  case (Time_handle io m1 m2)
  with assms show ?thesis by (simp add: missing_keys_zero_time_handle)
next
  case (Power_changed io response len)
  with assms show ?thesis by (simp add: missing_keys_zero_powerChanged)
next
  case (Input_changed io response len)
  with assms show ?thesis by (simp add: missing_keys_zero_inputChanged)
next
  case (Reset_data io)
  with assms show ?thesis by (simp add: missing_keys_zero_reset)
next
  case (Ntp_handle h mi d mo y wd)
  have "missing_keys_zero (ntp_handle h mi d mo y wd s) = missing_keys_zero s"
    by (rule missing_keys_zero_cong) (simp_all add: ntp_handle_def counters_def)
  with Ntp_handle assms show ?thesis by simp
next
  case Disconnected
  have "missing_keys_zero (denon_disconnected s) = missing_keys_zero s"
    by (rule missing_keys_zero_cong) (simp_all add: denon_disconnected_def counters_def)
  with Disconnected assms show ?thesis by simp
qed

lemma missing_keys_zero_run:
  "missing_keys_zero s \<Longrightarrow> missing_keys_zero (run dc es s)"
  by (induction es arbitrary: s) (simp_all add: missing_keys_zero_step)

lemma missing_keys_zero_counters_zero:
  assumes "counters s = [0, 0, 0, 0, 0, 0, 0, 0, 0, 0]" and "data_file s \<noteq> None"
  shows "missing_keys_zero s"
  using assms
  by (auto simp add: missing_keys_zero_def TIME_KEYS_def
      split: option.split file_content.split)

lemma missing_keys_zero_time_init:
  assumes "data_file (time_init io m (boot_state f)) \<noteq> None"
  shows "missing_keys_zero (time_init io m (boot_state f))"
proof -
  let ?b = "(boot_state f)\<lparr>everyMinute_tick := m + 60000\<rparr>"
  have z: "counters ?b = [0, 0, 0, 0, 0, 0, 0, 0, 0, 0]"
    by (simp add: boot_state_def counters_def)
  show ?thesis
  proof (cases f)
    case None
    then have n: "data_file ?b = None" by (simp add: boot_state_def)
    have "counters (snd (fs_load_data_file io ?b)) = [0, 0, 0, 0, 0, 0, 0, 0, 0, 0]"
      by (simp only: fs_load_data_file_counters_None [OF n] z)
    with assms show ?thesis
      unfolding time_init_def by (rule missing_keys_zero_counters_zero [rotated -1])
  next
    case (Some c)
    then have "data_file ?b \<noteq> None" by (simp add: boot_state_def)
    with z have "missing_keys_zero ?b" by (rule missing_keys_zero_counters_zero)
    then show ?thesis
      unfolding time_init_def by (rule missing_keys_zero_load)
  qed
qed

text \<open>
  Claim C5, as the code has it. Loading a record that parses sets each counter whose key
  is present to the stored value as \<^verbatim>\<open>(int32_t)\<close> converts it (the value itself
  when it is at least 0 and below \<open>2 ^ 31\<close>) and leaves each counter whose key is missing
  at its value in memory; the file is not changed. When the data file exists after
  startup (it was there, or could be opened for writing), then after every run of loop
  passes and callbacks, whatever flash operation fails, a counter whose key is missing
  from a record that parses is 0 in memory, and in such a state the load yields 0 for
  each missing key.
\<close>

theorem fs_load_data_file_members:
  "(data_file s = Some (Document d) \<longrightarrow>
      counters (snd (fs_load_data_file io s)) =
        [case map_of d TIME_PS5_TODAY of None \<Rightarrow> time_ps5_today_mins s | Some v \<Rightarrow> json_as_counter v,
         case map_of d TIME_PS5_WEEK of None \<Rightarrow> time_ps5_week_mins s | Some v \<Rightarrow> json_as_counter v,
         case map_of d TIME_PS5_MONTH of None \<Rightarrow> time_ps5_month_mins s | Some v \<Rightarrow> json_as_counter v,
         case map_of d TIME_PS5_YEAR of None \<Rightarrow> time_ps5_year_mins s | Some v \<Rightarrow> json_as_counter v,
         case map_of d TIME_PS5_SUM of None \<Rightarrow> time_ps5_sum_mins s | Some v \<Rightarrow> json_as_counter v,
         case map_of d TIME_SWITCH_TODAY of None \<Rightarrow> time_switch_today_mins s | Some v \<Rightarrow> json_as_counter v,
         case map_of d TIME_SWITCH_WEEK of None \<Rightarrow> time_switch_week_mins s | Some v \<Rightarrow> json_as_counter v,
         case map_of d TIME_SWITCH_MONTH of None \<Rightarrow> time_switch_month_mins s | Some v \<Rightarrow> json_as_counter v,
         case map_of d TIME_SWITCH_YEAR of None \<Rightarrow> time_switch_year_mins s | Some v \<Rightarrow> json_as_counter v,
         case map_of d TIME_SWITCH_SUM of None \<Rightarrow> time_switch_sum_mins s | Some v \<Rightarrow> json_as_counter v] \<and>
      data_file (snd (fs_load_data_file io s)) = data_file s) \<and>
   (data_file s = Some (Document d) \<and> missing_keys_zero s \<longrightarrow>
      counters (snd (fs_load_data_file io s)) =
        [case map_of d TIME_PS5_TODAY of None \<Rightarrow> 0 | Some v \<Rightarrow> json_as_counter v,
         case map_of d TIME_PS5_WEEK of None \<Rightarrow> 0 | Some v \<Rightarrow> json_as_counter v,
         case map_of d TIME_PS5_MONTH of None \<Rightarrow> 0 | Some v \<Rightarrow> json_as_counter v,
         case map_of d TIME_PS5_YEAR of None \<Rightarrow> 0 | Some v \<Rightarrow> json_as_counter v,
         case map_of d TIME_PS5_SUM of None \<Rightarrow> 0 | Some v \<Rightarrow> json_as_counter v,
         case map_of d TIME_SWITCH_TODAY of None \<Rightarrow> 0 | Some v \<Rightarrow> json_as_counter v,
         case map_of d TIME_SWITCH_WEEK of None \<Rightarrow> 0 | Some v \<Rightarrow> json_as_counter v,
         case map_of d TIME_SWITCH_MONTH of None \<Rightarrow> 0 | Some v \<Rightarrow> json_as_counter v,
         case map_of d TIME_SWITCH_YEAR of None \<Rightarrow> 0 | Some v \<Rightarrow> json_as_counter v,
         case map_of d TIME_SWITCH_SUM of None \<Rightarrow> 0 | Some v \<Rightarrow> json_as_counter v]) \<and>
   (data_file (time_init io0 m (boot_state f)) \<noteq> None \<longrightarrow>
      missing_keys_zero (run dc es (time_init io0 m (boot_state f)))) \<and>
   (0 \<le> v \<and> v < 2 ^ 31 \<longrightarrow> uint (json_as_counter v) = v)"
proof (intro conjI impI)
  assume f: "data_file s = Some (Document d)"
  then show "counters (snd (fs_load_data_file io s)) =
        [case map_of d TIME_PS5_TODAY of None \<Rightarrow> time_ps5_today_mins s | Some v \<Rightarrow> json_as_counter v,
         case map_of d TIME_PS5_WEEK of None \<Rightarrow> time_ps5_week_mins s | Some v \<Rightarrow> json_as_counter v,
         case map_of d TIME_PS5_MONTH of None \<Rightarrow> time_ps5_month_mins s | Some v \<Rightarrow> json_as_counter v,
         case map_of d TIME_PS5_YEAR of None \<Rightarrow> time_ps5_year_mins s | Some v \<Rightarrow> json_as_counter v,
         case map_of d TIME_PS5_SUM of None \<Rightarrow> time_ps5_sum_mins s | Some v \<Rightarrow> json_as_counter v,
         case map_of d TIME_SWITCH_TODAY of None \<Rightarrow> time_switch_today_mins s | Some v \<Rightarrow> json_as_counter v,
         case map_of d TIME_SWITCH_WEEK of None \<Rightarrow> time_switch_week_mins s | Some v \<Rightarrow> json_as_counter v,
         case map_of d TIME_SWITCH_MONTH of None \<Rightarrow> time_switch_month_mins s | Some v \<Rightarrow> json_as_counter v,
         case map_of d TIME_SWITCH_YEAR of None \<Rightarrow> time_switch_year_mins s | Some v \<Rightarrow> json_as_counter v,
         case map_of d TIME_SWITCH_SUM of None \<Rightarrow> time_switch_sum_mins s | Some v \<Rightarrow> json_as_counter v]"
    by (simp only: fs_load_data_file_document load_opened_counters)
  from f show "data_file (snd (fs_load_data_file io s)) = data_file s"
    by (simp add: fs_load_data_file_document load_opened_other)
next
  assume "data_file s = Some (Document d) \<and> missing_keys_zero s"
  then show "counters (snd (fs_load_data_file io s)) =
        [case map_of d TIME_PS5_TODAY of None \<Rightarrow> 0 | Some v \<Rightarrow> json_as_counter v,
         case map_of d TIME_PS5_WEEK of None \<Rightarrow> 0 | Some v \<Rightarrow> json_as_counter v,
         case map_of d TIME_PS5_MONTH of None \<Rightarrow> 0 | Some v \<Rightarrow> json_as_counter v,
         case map_of d TIME_PS5_YEAR of None \<Rightarrow> 0 | Some v \<Rightarrow> json_as_counter v,
         case map_of d TIME_PS5_SUM of None \<Rightarrow> 0 | Some v \<Rightarrow> json_as_counter v,
         case map_of d TIME_SWITCH_TODAY of None \<Rightarrow> 0 | Some v \<Rightarrow> json_as_counter v,
         case map_of d TIME_SWITCH_WEEK of None \<Rightarrow> 0 | Some v \<Rightarrow> json_as_counter v,
         case map_of d TIME_SWITCH_MONTH of None \<Rightarrow> 0 | Some v \<Rightarrow> json_as_counter v,
         case map_of d TIME_SWITCH_YEAR of None \<Rightarrow> 0 | Some v \<Rightarrow> json_as_counter v,
         case map_of d TIME_SWITCH_SUM of None \<Rightarrow> 0 | Some v \<Rightarrow> json_as_counter v]"
    by (intro load_missing_zero) simp_all
next
  assume "data_file (time_init io0 m (boot_state f)) \<noteq> None"
  then have "missing_keys_zero (time_init io0 m (boot_state f))"
    by (rule missing_keys_zero_time_init)
  then show "missing_keys_zero (run dc es (time_init io0 m (boot_state f)))"
    by (rule missing_keys_zero_run)
next
  assume "0 \<le> v \<and> v < 2 ^ 31"
  then show "uint (json_as_counter v) = v"
    by (simp add: json_as_counter_value)
qed

text \<open>
  Scenario A at startup, where the counters in memory are 0: today(PS) = 5,
  week(PS) = 60, today(SW) = 0 and 0 for every other counter; and a run after a startup
  that created the data file.
\<close>

theorem fs_load_data_file_members_witness:
  "data_file (boot_state (Some (Document scenario_a_record))) =
     Some (Document [(''ps_t'', 5), (''sw_t'', 0), (''ps_w'', 60)]) \<and>
   missing_keys_zero (boot_state (Some (Document scenario_a_record))) \<and>
   counters (snd (fs_load_data_file io_ok (boot_state (Some (Document scenario_a_record))))) =
     [5, 60, 0, 0, 0, 0, 0, 0, 0, 0] \<and>
   data_file (time_init io_ok 0 (boot_state None)) \<noteq> None \<and>
   missing_keys_zero (run example_commands failed_create_run (time_init io_ok 0 (boot_state None))) \<and>
   uint (json_as_counter 60) = 60"
proof -
  let ?s = "boot_state (Some (Document scenario_a_record))"
  have f: "data_file ?s = Some (Document scenario_a_record)"
    by (simp add: boot_state_def)
  have z: "missing_keys_zero ?s"
    by (rule missing_keys_zero_counters_zero) (simp_all add: boot_state_def counters_def)
  have i: "data_file (time_init io_ok 0 (boot_state None)) \<noteq> None"
    by (simp add: time_init_def fs_load_data_file_file boot_state_def io_ok_def)
  note t = fs_load_data_file_members
    [of ?s scenario_a_record io_ok io_ok 0 None example_commands failed_create_run 60]
  from f z have fz: "data_file ?s = Some (Document scenario_a_record) \<and> missing_keys_zero ?s"
    by simp
  note c = mp [OF t [THEN conjunct2, THEN conjunct1] fz]
  note r = mp [OF t [THEN conjunct2, THEN conjunct2, THEN conjunct1] i]
  have n: "(0::int) \<le> 60 \<and> (60::int) < 2 ^ 31" by simp
  note u = mp [OF t [THEN conjunct2, THEN conjunct2, THEN conjunct2] n]
  have c': "counters (snd (fs_load_data_file io_ok ?s)) = [5, 60, 0, 0, 0, 0, 0, 0, 0, 0]"
    unfolding c by (simp add: scenario_a_record_def key_defs json_as_counter_def)
  have f': "data_file ?s = Some (Document [(''ps_t'', 5), (''sw_t'', 0), (''ps_w'', 60)])"
    by (simp add: boot_state_def scenario_a_record_def key_defs)
  from f' z c' i r u show ?thesis by (simp only: simp_thms)
qed

text \<open>
  Claim C5 as stated fails after a failed open for writing. First boot without a data
  file, the file cannot be opened for writing; the PS5 input is selected and one minute
  is counted, the saves failing the same way; the receiver is switched off and on, and
  at power-on the file can be created, as \<^verbatim>\<open>{}\<close>. The record on flash now parses and
  has none of the ten keys, the five PS5 counters in memory are 1, and a load (the next
  power-on) leaves them at 1, not at 0.
\<close>

theorem fs_load_data_file_members_counterexample:
  "data_file (run example_commands failed_create_run (time_init io_no_open 0 (boot_state None))) =
     Some (Document []) \<and>
   counters (run example_commands failed_create_run (time_init io_no_open 0 (boot_state None))) =
     [1, 1, 1, 1, 1, 0, 0, 0, 0, 0] \<and>
   counters (snd (fs_load_data_file io_ok
      (run example_commands failed_create_run (time_init io_no_open 0 (boot_state None))))) =
     [1, 1, 1, 1, 1, 0, 0, 0, 0, 0] \<and>
   counters (snd (fs_load_data_file io_ok
      (run example_commands failed_create_run (time_init io_no_open 0 (boot_state None))))) \<noteq>
     [0, 0, 0, 0, 0, 0, 0, 0, 0, 0]"
proof -
  let ?r = "run example_commands failed_create_run (time_init io_no_open 0 (boot_state None))"
  have r: "?r =
      (boot_state (Some (Document [])))
        \<lparr>everyMinute_tick := 120001,
         time_ps5_today_mins := 1, time_ps5_week_mins := 1, time_ps5_month_mins := 1,
         time_ps5_year_mins := 1, time_ps5_sum_mins := 1,
         sm_screen := SM_SCREEN_STATS_PS5, sm_screen_forceRefresh := True,
         avr_sent := [(''SI'', ''?'')]\<rparr>"
    by (simp add: failed_create_run_def time_init_def fs_load_data_file_def
        fs_create_data_file_def fs_save_data_file_def load_opened_Nil
        denon_inputChanged_def denon_powerChanged_def time_handle_def minute_tick_def
        day_rollover_def strncmp_eq_def notification_def example_commands_def
        AVR_INPUT_PS5_def AVR_INPUT_SWITCH_def io_no_open_def io_ok_def boot_state_def
        screen_defs CLOCK_ENDSESSION_HOUR_def Let_def)
  have f: "data_file ?r = Some (Document [])"
    unfolding r by (simp add: boot_state_def)
  have c: "counters ?r = [1, 1, 1, 1, 1, 0, 0, 0, 0, 0]"
    unfolding r by (simp add: boot_state_def counters_def)
  have l: "counters (snd (fs_load_data_file io_ok ?r)) = [1, 1, 1, 1, 1, 0, 0, 0, 0, 0]"
    by (simp only: fs_load_data_file_document [OF f] load_opened_Nil c)
  from f c l show ?thesis by simp
qed


end
